theory Spec2Isabelle
  imports Main "HOL-Library.Sublist"
begin

section \<open>Python values and the operations the notebook applies to them\<close>

text \<open>
  The notebook \<^verbatim>\<open>HorovodPytorch/01_TrainPyTorchModel.py\<close> binds its variables to
  scalar Python values: \<^verbatim>\<open>get_key\<close> of python-dotenv returns a \<^verbatim>\<open>str\<close> or
  \<^verbatim>\<open>None\<close>, \<^verbatim>\<open>os.getenv\<close> with a default returns a \<^verbatim>\<open>str\<close>, and
  \<^verbatim>\<open>USE_FAKE\<close> is a \<^verbatim>\<open>bool\<close> literal. Integers are included because the
  cell that binds them is tagged \<^verbatim>\<open>parameters\<close> and its variables may be rebound
  to numbers before the rest of the notebook runs.
\<close>

datatype pyval = PNone | PBool bool | PInt int | PStr string

text \<open>
  \<^verbatim>\<open>TypeError\<close> is what Python raises when \<^verbatim>\<open>*\<close> has no meaning for its
  operands. \<^verbatim>\<open>ConfigurationError\<close> is the error kind the specification names; no
  statement of the notebook raises it.
\<close>

datatype error = TypeError | ConfigurationError

text \<open>\<^verbatim>\<open>bool\<close> is a subclass of \<^verbatim>\<open>int\<close>: \<^verbatim>\<open>True\<close> counts as 1.\<close>

fun as_int :: "pyval \<Rightarrow> int option" where
  "as_int (PInt n) = Some n"
| "as_int (PBool b) = Some (if b then 1 else 0)"
| "as_int _ = None"

text \<open>\<^verbatim>\<open>s * n\<close> on a string repeats it; a count below 1 gives the empty string.\<close>

definition repeat :: "string \<Rightarrow> int \<Rightarrow> string" where
  "repeat s n = concat (replicate (nat n) s)"

text \<open>
  The operator \<^verbatim>\<open>a * b\<close>: the product of two integers, the repetition of a string
  by an integer (in either order), and \<^verbatim>\<open>TypeError\<close> for every other pair, in
  particular for two strings and for \<^verbatim>\<open>None\<close>.
\<close>

fun py_mul :: "pyval \<Rightarrow> pyval \<Rightarrow> error + pyval" where
  "py_mul (PStr s) b =
     (case as_int b of Some n \<Rightarrow> Inr (PStr (repeat s n)) | None \<Rightarrow> Inl TypeError)"
| "py_mul a (PStr s) =
     (case as_int a of Some n \<Rightarrow> Inr (PStr (repeat s n)) | None \<Rightarrow> Inl TypeError)"
| "py_mul a b =
     (case (as_int a, as_int b) of
        (Some m, Some n) \<Rightarrow> Inr (PInt (m * n))
      | _ \<Rightarrow> Inl TypeError)"

text \<open>Truth value of a Python value, as \<^verbatim>\<open>if USE_FAKE\<close> tests it.\<close>

fun truthy :: "pyval \<Rightarrow> bool" where
  "truthy PNone = False"
| "truthy (PBool b) = b"
| "truthy (PInt n) = (n \<noteq> 0)"
| "truthy (PStr s) = (s \<noteq> [])"

text \<open>Decimal rendering of an integer, as \<^verbatim>\<open>str\<close> gives it.\<close>

definition digit :: "nat \<Rightarrow> char" where
  "digit d = ''0123456789'' ! (d mod 10)"

fun digits :: "nat \<Rightarrow> string" where
  "digits n = (if n < 10 then [digit n] else digits (n div 10) @ [digit (n mod 10)])"

declare digits.simps [simp del]

definition str_int :: "int \<Rightarrow> string" where
  "str_int i = (if i < 0 then CHR ''-'' # digits (nat (- i)) else digits (nat i))"

text \<open>
  \<^verbatim>\<open>str(v)\<close>, which is what an f-string field, \<^verbatim>\<open>'{}'.format(v)\<close> and the
  \<^verbatim>\<open>$VAR\<close> expansion of a shell line insert for a value.
\<close>

fun py_str :: "pyval \<Rightarrow> string" where
  "py_str PNone = ''None''"
| "py_str (PBool b) = (if b then ''True'' else ''False'')"
| "py_str (PInt n) = str_int n"
| "py_str (PStr s) = s"

section \<open>The parameters cell (lines 38 to 49)\<close>

record params =
  GROUP_NAME :: pyval
  FILE_SHARE_NAME :: pyval
  WORKSPACE :: pyval
  NUM_NODES :: pyval
  CLUSTER_NAME :: pyval
  GPU_TYPE :: pyval
  PROCESSES_PER_NODE :: pyval
  EXPERIMENT :: pyval
  USE_FAKE :: pyval
  DOCKERHUB :: pyval

text \<open>
  \<^verbatim>\<open>get_key(dotenv_path, key)\<close>: the value of the key in the \<^verbatim>\<open>.env\<close> store as a
  string, \<^verbatim>\<open>None\<close> when the store has no such key. The store is a map from key to
  text; it never holds a number.
\<close>

definition get_key :: "(string \<rightharpoonup> string) \<Rightarrow> string \<Rightarrow> pyval" where
  "get_key dotenv k = (case dotenv k of None \<Rightarrow> PNone | Some v \<Rightarrow> PStr v)"

text \<open>\<^verbatim>\<open>os.getenv(name, default)\<close> on the process environment.\<close>

definition getenv :: "(string \<rightharpoonup> string) \<Rightarrow> string \<Rightarrow> string \<Rightarrow> pyval" where
  "getenv environ k dflt = (case environ k of None \<Rightarrow> PStr dflt | Some v \<Rightarrow> PStr v)"

definition parameters_cell :: "(string \<rightharpoonup> string) \<Rightarrow> (string \<rightharpoonup> string) \<Rightarrow> params" where
  "parameters_cell dotenv environ =
     \<lparr> GROUP_NAME = get_key dotenv ''GROUP_NAME'',
       FILE_SHARE_NAME = get_key dotenv ''FILE_SHARE_NAME'',
       WORKSPACE = get_key dotenv ''WORKSPACE'',
       NUM_NODES = get_key dotenv ''NUM_NODES'',
       CLUSTER_NAME = get_key dotenv ''CLUSTER_NAME'',
       GPU_TYPE = get_key dotenv ''GPU_TYPE'',
       PROCESSES_PER_NODE = get_key dotenv ''PROCESSES_PER_NODE'',
       EXPERIMENT = PStr (''distributed_pytorch_'' @ py_str (get_key dotenv ''GPU_TYPE'')),
       USE_FAKE = PBool False,
       DOCKERHUB = getenv environ ''DOCKER_REPOSITORY'' ''masalvar'' \<rparr>"

section \<open>The job descriptor (lines 52 to 124)\<close>

definition FAKE :: "params \<Rightarrow> string" where
  "FAKE p = (if truthy (USE_FAKE p) then ''-env FAKE=True'' else '''')"

definition TOTAL_PROCESSES :: "params \<Rightarrow> error + pyval" where
  "TOTAL_PROCESSES p = py_mul (PROCESSES_PER_NODE p) (NUM_NODES p)"

text \<open>
  The f-string of lines 79 to 93, one piece per source line. A backslash at the end of a
  line inside the literal joins the lines, so the text is one line whose pieces are
  separated by the blank before the backslash and the indentation of the next line.
  The two arguments are the renderings of \<^verbatim>\<open>{TOTAL_PROCESSES}\<close> and
  \<^verbatim>\<open>{FAKE}\<close>.
\<close>

definition command_line :: "string \<Rightarrow> string \<Rightarrow> string" where
  "command_line total_processes fake =
     ''echo $AZ_BATCH_HOST_LIST; '' @
     ''    cat $AZ_BATCHAI_MPI_HOST_FILE; '' @
     ''    mpirun -np '' @ total_processes @ '' --hostfile $AZ_BATCHAI_MPI_HOST_FILE '' @
     ''    -bind-to none -map-by slot '' @
     ''    -x NCCL_DEBUG=INFO -x LD_LIBRARY_PATH '' @
     ''    -mca btl_tcp_if_include eth0 '' @
     ''    -x NCCL_SOCKET_IFNAME=eth0 '' @
     ''    -mca btl ^openib '' @
     ''    -x NCCL_IB_DISABLE=1 '' @
     ''    -x DISTRIBUTED=True '' @
     ''    -x AZ_BATCHAI_INPUT_TRAIN '' @
     ''    -x AZ_BATCHAI_INPUT_TEST '' @
     ''    --allow-run-as-root '' @
     ''      '' @ fake @ '' '' @
     ''      python -u $AZ_BATCHAI_INPUT_SCRIPTS/imagenet_pytorch_horovod.py''"

text \<open>
  The dictionary literal \<^verbatim>\<open>jobs_dict\<close> is a tree of dictionaries (with string keys,
  in the order written), lists and scalar values.
\<close>

datatype pyobj = Val pyval | List "pyobj list" | Dict "(string \<times> pyobj) list"

definition jobs_dict :: "params \<Rightarrow> pyval \<Rightarrow> pyobj" where
  "jobs_dict p total_processes =
     Dict [
       (''$schema'', Val (PStr ''https://raw.githubusercontent.com/Azure/BatchAI/master/schemas/2017-09-01-preview/job.json'')),
       (''properties'', Dict [
          (''nodeCount'', Val (NUM_NODES p)),
          (''customToolkitSettings'', Dict [
             (''commandLine'', Val (PStr (command_line (py_str total_processes) (FAKE p))))]),
          (''stdOutErrPathPrefix'', Val (PStr ''$AZ_BATCHAI_MOUNT_ROOT/extfs'')),
          (''inputDirectories'', List [
             Dict [(''id'', Val (PStr ''SCRIPTS'')),
                   (''path'', Val (PStr ''$AZ_BATCHAI_MOUNT_ROOT/extfs/scripts''))],
             Dict [(''id'', Val (PStr ''TRAIN'')),
                   (''path'', Val (PStr ''$AZ_BATCHAI_MOUNT_ROOT/nfs/imagenet''))],
             Dict [(''id'', Val (PStr ''TEST'')),
                   (''path'', Val (PStr ''$AZ_BATCHAI_MOUNT_ROOT/nfs/imagenet''))]]),
          (''outputDirectories'', List [
             Dict [(''id'', Val (PStr ''MODEL'')),
                   (''pathPrefix'', Val (PStr ''$AZ_BATCHAI_MOUNT_ROOT/extfs'')),
                   (''pathSuffix'', Val (PStr ''Models''))]]),
          (''containerSettings'', Dict [
             (''imageSourceRegistry'', Dict [
                (''image'', Val (PStr (py_str (DOCKERHUB p) @ ''/caia-horovod-pytorch'')))])])])]"

definition JOB_NAME :: "params \<Rightarrow> error + string" where
  "JOB_NAME p =
     (case py_mul (NUM_NODES p) (PROCESSES_PER_NODE p) of
        Inl e \<Rightarrow> Inl e
      | Inr v \<Rightarrow> Inr (''pytorch-horovod-'' @ py_str v))"

section \<open>The shell lines and the run of the notebook\<close>

text \<open>
  A line that starts with \<^verbatim>\<open>!\<close> is handed to the shell after each \<^verbatim>\<open>$VAR\<close>
  has been replaced by \<^verbatim>\<open>str\<close> of the Python variable. The lines are listed in
  the order of the source: lines 57 to 68 before the descriptor is built, lines 128 to 146
  for the job, lines 153 to 168 for the clean-up.
\<close>

definition upload :: "params \<Rightarrow> string \<Rightarrow> string" where
  "upload p source =
     ''az storage file upload --share-name '' @ py_str (FILE_SHARE_NAME p) @
     '' --source '' @ source @ '' --path scripts''"

definition setup_commands :: "params \<Rightarrow> string list" where
  "setup_commands p =
     [''az batchai experiment create -n '' @ py_str (EXPERIMENT p) @
        '' -g '' @ py_str (GROUP_NAME p) @ '' -w '' @ py_str (WORKSPACE p),
      upload p ''src/imagenet_pytorch_horovod.py'',
      upload p ''../common/timer.py'',
      upload p ''cluster_config/docker.service'',
      upload p ''cluster_config/nodeprep.sh'',
      ''az batchai cluster list -w '' @ py_str (WORKSPACE p) @ '' -o table'']"

definition job_commands :: "params \<Rightarrow> string \<Rightarrow> string list" where
  "job_commands p job_name =
     [''az batchai job create -n '' @ job_name @ '' --cluster '' @ py_str (CLUSTER_NAME p) @
        '' -w '' @ py_str (WORKSPACE p) @ '' -e '' @ py_str (EXPERIMENT p) @ '' -f job.json'',
      ''az batchai job list -w '' @ py_str (WORKSPACE p) @ '' -e '' @ py_str (EXPERIMENT p) @
        '' -o table'',
      ''az batchai job file list -w '' @ py_str (WORKSPACE p) @ '' -e '' @ py_str (EXPERIMENT p) @
        '' --j '' @ job_name @ '' --output-directory-id stdouterr'',
      ''az batchai job file stream -w '' @ py_str (WORKSPACE p) @ '' -e '' @
        py_str (EXPERIMENT p) @ '' --j '' @ job_name @
        '' --output-directory-id stdouterr -f stdout.txt'',
      ''az batchai job file stream -w '' @ py_str (WORKSPACE p) @ '' -e '' @
        py_str (EXPERIMENT p) @ '' --j '' @ job_name @
        '' --output-directory-id stdouterr -f stderr.txt'',
      ''az batchai job delete -w '' @ py_str (WORKSPACE p) @ '' -e '' @ py_str (EXPERIMENT p) @
        '' --name '' @ job_name @ '' -y'']"

definition cleanup_commands :: "params \<Rightarrow> string list" where
  "cleanup_commands p =
     [''az configure --defaults group='' @ [CHR 0x27, CHR 0x27],
      ''az configure --defaults location='' @ [CHR 0x27, CHR 0x27],
      ''az batchai cluster delete -w '' @ py_str (WORKSPACE p) @ '' --name '' @
        py_str (CLUSTER_NAME p) @ '' -g '' @ py_str (GROUP_NAME p) @ '' -y'',
      ''az batchai experiment delete -w '' @ py_str (WORKSPACE p) @ '' --name '' @
        py_str (EXPERIMENT p) @ '' -g '' @ py_str (GROUP_NAME p) @ '' -y'',
      ''az batchai workspace delete -n '' @ py_str (WORKSPACE p) @ '' -g '' @
        py_str (GROUP_NAME p) @ '' -y'',
      ''az group delete --name '' @ py_str (GROUP_NAME p) @ '' -y'']"

text \<open>
  What a run leaves behind: the exception that stopped it (if any), the shell lines issued
  so far, in order, and the dictionary handed to \<^verbatim>\<open>write_json_to_file\<close> for
  \<^verbatim>\<open>job.json\<close> (if that line was reached).
\<close>

record run_state =
  raised :: "error option"
  shell_log :: "string list"
  job_file :: "pyobj option"

text \<open>
  The notebook from line 52 on, top to bottom, for given values of the variables of the
  parameters cell. An exception stops the run where it is raised: line 53 comes before
  the first shell line, line 124 after the descriptor has been written.
\<close>

definition run :: "params \<Rightarrow> run_state" where
  "run p =
     (case TOTAL_PROCESSES p of
        Inl e \<Rightarrow> \<lparr> raised = Some e, shell_log = [], job_file = None \<rparr>
      | Inr total_processes \<Rightarrow>
          (case JOB_NAME p of
             Inl e \<Rightarrow>
               \<lparr> raised = Some e, shell_log = setup_commands p,
                 job_file = Some (jobs_dict p total_processes) \<rparr>
           | Inr job_name \<Rightarrow>
               \<lparr> raised = None,
                 shell_log = setup_commands p @ job_commands p job_name @ cleanup_commands p,
                 job_file = Some (jobs_dict p total_processes) \<rparr>))"

text \<open>The notebook as written: the variables come from the parameters cell.\<close>

definition notebook :: "(string \<rightharpoonup> string) \<Rightarrow> (string \<rightharpoonup> string) \<Rightarrow> run_state" where
  "notebook dotenv environ = run (parameters_cell dotenv environ)"

section \<open>Reading the descriptor\<close>

text \<open>\<^verbatim>\<open>d[k]\<close> on a dictionary, and a chain of such lookups.\<close>

fun item :: "pyobj \<Rightarrow> string \<Rightarrow> pyobj option" where
  "item (Dict kvs) k = map_of kvs k"
| "item _ k = None"

fun path :: "pyobj \<Rightarrow> string list \<Rightarrow> pyobj option" where
  "path d [] = Some d"
| "path d (k # ks) = (case item d k of None \<Rightarrow> None | Some q \<Rightarrow> path q ks)"

fun text_of :: "pyobj option \<Rightarrow> string option" where
  "text_of (Some (Val (PStr s))) = Some s"
| "text_of _ = None"

definition nodeCount :: "pyobj \<Rightarrow> pyobj option" where
  "nodeCount d = path d [''properties'', ''nodeCount'']"

definition commandLine :: "pyobj \<Rightarrow> string option" where
  "commandLine d = text_of (path d [''properties'', ''customToolkitSettings'', ''commandLine''])"

definition image_of :: "pyobj \<Rightarrow> string option" where
  "image_of d =
     text_of (path d [''properties'', ''containerSettings'', ''imageSourceRegistry'', ''image''])"

definition input_ids :: "pyobj \<Rightarrow> string list" where
  "input_ids d =
     (case path d [''properties'', ''inputDirectories''] of
        Some (List ds) \<Rightarrow> List.map_filter (\<lambda>x. text_of (item x ''id'')) ds
      | _ \<Rightarrow> [])"

text \<open>
  The tokens of a command line: the maximal runs of characters other than white space,
  as the shell (and \<^verbatim>\<open>str.split()\<close>) separates them.
\<close>

definition is_space :: "char \<Rightarrow> bool" where
  "is_space c = (c \<in> set [CHR '' '', CHR 0x09, CHR 0x0A, CHR 0x0B, CHR 0x0C, CHR 0x0D])"

fun tokens_acc :: "string \<Rightarrow> string \<Rightarrow> string list" where
  "tokens_acc acc [] = (if acc = [] then [] else [acc])"
| "tokens_acc acc (c # cs) =
     (if is_space c then (if acc = [] then tokens_acc [] cs else acc # tokens_acc [] cs)
      else tokens_acc (acc @ [c]) cs)"

definition tokens :: "string \<Rightarrow> string list" where
  "tokens s = tokens_acc [] s"

text \<open>
  The input directories a command line refers to: wherever the name of a variable
  \<^verbatim>\<open>AZ_BATCHAI_INPUT_<ID>\<close> occurs in the text (after a \<^verbatim>\<open>$\<close>, or as the name
  given to \<^verbatim>\<open>mpirun -x\<close>), the identifier characters that follow are the id.
\<close>

definition is_ident :: "char \<Rightarrow> bool" where
  "is_ident c =
     (c \<in> set ''ABCDEFGHIJKLMNOPQRSTUVWXYZabcdefghijklmnopqrstuvwxyz0123456789_'')"

fun referenced_inputs :: "string \<Rightarrow> string list" where
  "referenced_inputs [] = []"
| "referenced_inputs (c # cs) =
     (if prefix ''AZ_BATCHAI_INPUT_'' (c # cs)
      then takeWhile is_ident (drop (length ''AZ_BATCHAI_INPUT_'') (c # cs)) # referenced_inputs cs
      else referenced_inputs cs)"

text \<open>The characters a rendered integer is made of.\<close>

definition decimal :: "char \<Rightarrow> bool" where
  "decimal c = (c \<in> set ''-0123456789'')"

section \<open>Reading the shell log\<close>

text \<open>
  A shell line is classified by the words it starts with, which are literal text of the
  source (every variable of a line follows an option of that line).
\<close>

definition is_upload :: "string \<Rightarrow> bool" where
  "is_upload c = prefix ''az storage file upload '' c"

definition is_submit :: "string \<Rightarrow> bool" where
  "is_submit c = prefix ''az batchai job create '' c"

text \<open>Status polls and log streams: the job list, the job's file list, the file streams.\<close>

definition is_monitor :: "string \<Rightarrow> bool" where
  "is_monitor c = (prefix ''az batchai job list '' c \<or> prefix ''az batchai job file '' c)"

definition is_delete :: "string \<Rightarrow> bool" where
  "is_delete c =
     (prefix ''az batchai job delete '' c \<or> prefix ''az batchai cluster delete '' c \<or>
      prefix ''az batchai experiment delete '' c \<or> prefix ''az batchai workspace delete '' c \<or>
      prefix ''az group delete '' c)"

text \<open>
  The option \<^verbatim>\<open>-y\<close> (\<^verbatim>\<open>--yes\<close>) of the \<^verbatim>\<open>az\<close> delete commands: do not prompt
  for confirmation.
\<close>

definition no_prompt :: "string \<Rightarrow> bool" where
  "no_prompt c = suffix '' -y'' c"

text \<open>
  \<open>all_before P Q xs\<close>: every element of \<open>xs\<close> that satisfies \<open>P\<close> stands strictly
  before every element that satisfies \<open>Q\<close>.
\<close>

fun all_before :: "('a \<Rightarrow> bool) \<Rightarrow> ('a \<Rightarrow> bool) \<Rightarrow> 'a list \<Rightarrow> bool" where
  "all_before P Q [] = True"
| "all_before P Q (x # xs) = ((if Q x then \<not> list_ex P (x # xs) else True) \<and> all_before P Q xs)"


text \<open>The configuration of the specification's scenario: 2 nodes, 4 processes on each.\<close>

definition two_by_four :: params where
  "two_by_four =
     \<lparr> GROUP_NAME = PStr ''grp'', FILE_SHARE_NAME = PStr ''share'', WORKSPACE = PStr ''ws'',
       NUM_NODES = PInt 2, CLUSTER_NAME = PStr ''cluster'', GPU_TYPE = PStr ''V100'',
       PROCESSES_PER_NODE = PInt 4, EXPERIMENT = PStr ''distributed_pytorch_V100'',
       USE_FAKE = PBool False, DOCKERHUB = PStr ''masalvar'' \<rparr>"

section \<open>The job file\<close>

text \<open>
  Modelled from the spec: \<^verbatim>\<open>write_json_to_file\<close> comes from the module
  \<^verbatim>\<open>utils\<close> of the directory \<^verbatim>\<open>common\<close>, which is not among the sources. The
  specification says that the descriptor is serialized to a file as a JSON document and
  that the document can be parsed again. The text written is modelled as JSON in the
  layout of Python's \<^verbatim>\<open>json.dumps\<close>: members and items in the order of the
  dictionary, separated by a comma and a blank, a colon and a blank after each key;
  \<^verbatim>\<open>None\<close>, \<^verbatim>\<open>True\<close> and \<^verbatim>\<open>False\<close> as \<^verbatim>\<open>null\<close>, \<^verbatim>\<open>true\<close> and
  \<^verbatim>\<open>false\<close>; integers in decimal; strings in double quotes, with the quote and the
  backslash escaped by a backslash and every control character written as
  \<^verbatim>\<open>\u00XX\<close>.
\<close>

definition hex_digit :: "nat \<Rightarrow> char" where
  "hex_digit k = ''0123456789abcdef'' ! (k mod 16)"

definition escape_char :: "char \<Rightarrow> string" where
  "escape_char c =
     (if c = CHR 0x22 then [CHR 0x5C, CHR 0x22]
      else if c = CHR 0x5C then [CHR 0x5C, CHR 0x5C]
      else if (of_char c :: nat) < 32
      then [CHR 0x5C, CHR ''u'', CHR ''0'', CHR ''0'',
            hex_digit (of_char c div 16), hex_digit (of_char c mod 16)]
      else [c])"

definition quote :: "string \<Rightarrow> string" where
  "quote s = CHR 0x22 # concat (map escape_char s) @ [CHR 0x22]"

fun dumps_val :: "pyval \<Rightarrow> string" where
  "dumps_val PNone = ''null''"
| "dumps_val (PBool b) = (if b then ''true'' else ''false'')"
| "dumps_val (PInt n) = str_int n"
| "dumps_val (PStr s) = quote s"

fun dumps :: "pyobj \<Rightarrow> string"
  and dumps_items :: "pyobj list \<Rightarrow> string"
  and dumps_members :: "(string \<times> pyobj) list \<Rightarrow> string" where
  "dumps (Val v) = dumps_val v"
| "dumps (List xs) = ''['' @ dumps_items xs @ '']''"
| "dumps (Dict kvs) = ''{'' @ dumps_members kvs @ ''}''"
| "dumps_items [] = []"
| "dumps_items [x] = dumps x"
| "dumps_items (x # y # ys) = dumps x @ '', '' @ dumps_items (y # ys)"
| "dumps_members [] = []"
| "dumps_members [(k, v)] = quote k @ '': '' @ dumps v"
| "dumps_members ((k, v) # kv # kvs) =
     quote k @ '': '' @ dumps v @ '', '' @ dumps_members (kv # kvs)"

text \<open>
  Modelled from the spec: the text that \<^verbatim>\<open>write_json_to_file(jobs_dict, 'job.json')\<close>
  leaves in the job file.
\<close>

definition write_json_to_file :: "pyobj \<Rightarrow> string" where
  "write_json_to_file json_dict = dumps json_dict"

text \<open>
  Modelled from the spec: re-parsing the job file. A JSON reader for the values a
  descriptor is made of (no fractions or exponents): it skips white space between the
  tokens, reads the escapes \<^verbatim>\<open>\" \\ \/ \b \f \n \r \t \uXXXX\<close> in strings (a
  \<^verbatim>\<open>\u\<close> escape above 255 is outside the one-byte characters of the model and is
  refused), and keeps the members of an object in the order of the text. The fuel bounds
  the nesting and the number of values read; \<open>loads\<close> gives it more than the length of
  the text.
\<close>

definition is_ws :: "char \<Rightarrow> bool" where
  "is_ws c = (c = CHR '' '' \<or> c = CHR 0x09 \<or> c = CHR 0x0A \<or> c = CHR 0x0D)"

definition skip_ws :: "string \<Rightarrow> string" where
  "skip_ws s = dropWhile is_ws s"

definition hex_value :: "char \<Rightarrow> nat option" where
  "hex_value c =
     (let n = (of_char c :: nat) in
      if 48 \<le> n \<and> n \<le> 57 then Some (n - 48)
      else if 97 \<le> n \<and> n \<le> 102 then Some (n - 87)
      else if 65 \<le> n \<and> n \<le> 70 then Some (n - 55)
      else None)"

definition hex4 :: "char \<Rightarrow> char \<Rightarrow> char \<Rightarrow> char \<Rightarrow> char option" where
  "hex4 a b c d =
     (case (hex_value a, hex_value b, hex_value c, hex_value d) of
        (Some x, Some y, Some z, Some w) \<Rightarrow>
          (if ((x * 16 + y) * 16 + z) * 16 + w < 256
           then Some (char_of (((x * 16 + y) * 16 + z) * 16 + w)) else None)
      | _ \<Rightarrow> None)"

definition unescape :: "char \<Rightarrow> char option" where
  "unescape e =
     (if e = CHR 0x22 then Some (CHR 0x22)
      else if e = CHR 0x5C then Some (CHR 0x5C)
      else if e = CHR ''/'' then Some (CHR ''/'')
      else if e = CHR ''b'' then Some (CHR 0x08)
      else if e = CHR ''f'' then Some (CHR 0x0C)
      else if e = CHR ''n'' then Some (CHR 0x0A)
      else if e = CHR ''r'' then Some (CHR 0x0D)
      else if e = CHR ''t'' then Some (CHR 0x09)
      else None)"

text \<open>The characters of a string after its opening quote, and the text after its closing quote.\<close>

fun json_string :: "string \<Rightarrow> (string \<times> string) option" where
  "json_string [] = None"
| "json_string (c # r) =
     (if c = CHR 0x22 then Some ([], r)
      else if c = CHR 0x5C then
        (case r of
           [] \<Rightarrow> None
         | e # r1 \<Rightarrow>
             if e = CHR ''u'' then
               (case r1 of
                  a # b # c' # d # r2 \<Rightarrow>
                    (case hex4 a b c' d of
                       None \<Rightarrow> None
                     | Some ch \<Rightarrow>
                         (case json_string r2 of
                            None \<Rightarrow> None
                          | Some (s, r3) \<Rightarrow> Some (ch # s, r3)))
                | _ \<Rightarrow> None)
             else
               (case unescape e of
                  None \<Rightarrow> None
                | Some ch \<Rightarrow>
                    (case json_string r1 of
                       None \<Rightarrow> None
                     | Some (s, r3) \<Rightarrow> Some (ch # s, r3))))
      else if (of_char c :: nat) < 32 then None
      else (case json_string r of None \<Rightarrow> None | Some (s, r3) \<Rightarrow> Some (c # s, r3)))"

definition is_digit :: "char \<Rightarrow> bool" where
  "is_digit c = (48 \<le> (of_char c :: nat) \<and> (of_char c :: nat) \<le> 57)"

definition nat_of_digits :: "string \<Rightarrow> nat" where
  "nat_of_digits ds = foldl (\<lambda>a c. 10 * a + (of_char c - 48)) 0 ds"

definition json_nat :: "string \<Rightarrow> (nat \<times> string) option" where
  "json_nat s =
     (if takeWhile is_digit s = [] then None
      else Some (nat_of_digits (takeWhile is_digit s), dropWhile is_digit s))"

definition json_int :: "string \<Rightarrow> (int \<times> string) option" where
  "json_int s =
     (case s of
        [] \<Rightarrow> None
      | c # r \<Rightarrow>
          if c = CHR ''-'' then map_option (\<lambda>(n, t). (- int n, t)) (json_nat r)
          else map_option (\<lambda>(n, t). (int n, t)) (json_nat s))"

fun parse_value :: "nat \<Rightarrow> string \<Rightarrow> (pyobj \<times> string) option"
  and parse_items :: "nat \<Rightarrow> string \<Rightarrow> (pyobj list \<times> string) option"
  and parse_members :: "nat \<Rightarrow> string \<Rightarrow> ((string \<times> pyobj) list \<times> string) option" where
  "parse_value 0 s = None"
| "parse_value (Suc n) s =
     (if prefix ''null'' (skip_ws s) then Some (Val PNone, drop 4 (skip_ws s))
      else if prefix ''true'' (skip_ws s) then Some (Val (PBool True), drop 4 (skip_ws s))
      else if prefix ''false'' (skip_ws s) then Some (Val (PBool False), drop 5 (skip_ws s))
      else
        (case skip_ws s of
           [] \<Rightarrow> None
         | c # r \<Rightarrow>
             if c = CHR 0x22 then
               (case json_string r of
                  None \<Rightarrow> None
                | Some (str, r') \<Rightarrow> Some (Val (PStr str), r'))
             else if c = CHR ''['' then
               (case skip_ws r of
                  [] \<Rightarrow> None
                | c' # r' \<Rightarrow>
                    if c' = CHR '']'' then Some (List [], r')
                    else (case parse_items n r of
                            None \<Rightarrow> None
                          | Some (xs, r'') \<Rightarrow> Some (List xs, r'')))
             else if c = CHR ''{'' then
               (case skip_ws r of
                  [] \<Rightarrow> None
                | c' # r' \<Rightarrow>
                    if c' = CHR ''}'' then Some (Dict [], r')
                    else (case parse_members n r of
                            None \<Rightarrow> None
                          | Some (kvs, r'') \<Rightarrow> Some (Dict kvs, r'')))
             else
               (case json_int (c # r) of
                  None \<Rightarrow> None
                | Some (i, r') \<Rightarrow> Some (Val (PInt i), r'))))"
| "parse_items 0 s = None"
| "parse_items (Suc n) s =
     (case parse_value n s of
        None \<Rightarrow> None
      | Some (x, r) \<Rightarrow>
          (case skip_ws r of
             [] \<Rightarrow> None
           | c # r' \<Rightarrow>
               if c = CHR '','' then
                 (case parse_items n r' of
                    None \<Rightarrow> None
                  | Some (xs, r'') \<Rightarrow> Some (x # xs, r''))
               else if c = CHR '']'' then Some ([x], r')
               else None))"
| "parse_members 0 s = None"
| "parse_members (Suc n) s =
     (case skip_ws s of
        [] \<Rightarrow> None
      | q # r \<Rightarrow>
          if q = CHR 0x22 then
            (case json_string r of
               None \<Rightarrow> None
             | Some (k, r1) \<Rightarrow>
                 (case skip_ws r1 of
                    [] \<Rightarrow> None
                  | c # r2 \<Rightarrow>
                      if c = CHR '':'' then
                        (case parse_value n r2 of
                           None \<Rightarrow> None
                         | Some (v, r3) \<Rightarrow>
                             (case skip_ws r3 of
                                [] \<Rightarrow> None
                              | c' # r4 \<Rightarrow>
                                  if c' = CHR '','' then
                                    (case parse_members n r4 of
                                       None \<Rightarrow> None
                                     | Some (kvs, r5) \<Rightarrow> Some ((k, v) # kvs, r5))
                                  else if c' = CHR ''}'' then Some ([(k, v)], r4)
                                  else None))
                      else None))
          else None)"

definition loads :: "string \<Rightarrow> pyobj option" where
  "loads s =
     (case parse_value (Suc (length s)) s of
        None \<Rightarrow> None
      | Some (d, r) \<Rightarrow> if skip_ws r = [] then Some d else None)"

text \<open>The number of values and members of a tree: the fuel that reading it back takes.\<close>

fun cost :: "pyobj \<Rightarrow> nat"
  and cost_items :: "pyobj list \<Rightarrow> nat"
  and cost_members :: "(string \<times> pyobj) list \<Rightarrow> nat" where
  "cost (Val v) = 1"
| "cost (List xs) = Suc (cost_items xs)"
| "cost (Dict kvs) = Suc (cost_members kvs)"
| "cost_items [] = 0"
| "cost_items (x # xs) = Suc (cost x + cost_items xs)"
| "cost_members [] = 0"
| "cost_members ((k, v) # kvs) = Suc (cost v + cost_members kvs)"

section \<open>Facts about the model\<close>

lemma parameters_cell_product:
  "TOTAL_PROCESSES (parameters_cell dotenv environ) = Inl TypeError"
  by (simp add: TOTAL_PROCESSES_def parameters_cell_def get_key_def split: option.splits)

lemma notebook_stops:
  "notebook dotenv environ = \<lparr> raised = Some TypeError, shell_log = [], job_file = None \<rparr>"
  by (simp add: notebook_def run_def parameters_cell_product)

lemma image_jobs_dict:
  "image_of (jobs_dict p tp) = Some (py_str (DOCKERHUB p) @ ''/caia-horovod-pytorch'')"
  by (simp add: image_of_def jobs_dict_def)

lemma commandLine_jobs_dict:
  "commandLine (jobs_dict p tp) = Some (command_line (py_str tp) (FAKE p))"
  by (simp add: commandLine_def jobs_dict_def)

subsection \<open>Rendered integers\<close>

lemma digit_decimal: "decimal (digit d)"
proof -
  have "d mod 10 < length ''0123456789''" by simp
  then have "''0123456789'' ! (d mod 10) \<in> set ''0123456789''" by (rule nth_mem)
  then show ?thesis by (simp add: digit_def decimal_def)
qed

lemma digits_decimal: "list_all decimal (digits n)"
proof (induction n rule: digits.induct)
  case (1 n)
  show ?case
  proof (cases "n < 10")
    case True
    then have "digits n = [digit n]" by (simp add: digits.simps)
    then show ?thesis by (simp add: digit_decimal)
  next
    case False
    then have "digits n = digits (n div 10) @ [digit (n mod 10)]" by (simp add: digits.simps)
    then show ?thesis using 1 False by (simp add: digit_decimal)
  qed
qed

lemma digits_nonempty: "digits n \<noteq> []"
  by (subst digits.simps) simp

lemma str_int_decimal: "list_all decimal (str_int i)"
  by (simp add: str_int_def digits_decimal decimal_def)

lemma str_int_nonempty: "str_int i \<noteq> []"
  by (simp add: str_int_def digits_nonempty)

lemma decimal_not_space: "decimal c \<Longrightarrow> \<not> is_space c"
  by (auto simp: decimal_def is_space_def)

lemma str_int_word: "list_all (\<lambda>c. \<not> is_space c) (str_int i)"
  using str_int_decimal [of i] by (simp add: list_all_iff decimal_not_space)

subsection \<open>The tokens of the command line\<close>

lemma tokens_acc_word:
  "list_all (\<lambda>c. \<not> is_space c) w \<Longrightarrow> tokens_acc acc (w @ r) = tokens_acc (acc @ w) r"
  by (induction w arbitrary: acc) simp_all

lemma tokens_acc_blank:
  "tokens_acc acc (xs @ CHR '' '' # ys) = tokens_acc acc xs @ tokens_acc [] ys"
  by (induction xs arbitrary: acc) (simp_all add: is_space_def)

lemma command_line_split:
  "command_line w fake =
     ''echo $AZ_BATCH_HOST_LIST;     cat $AZ_BATCHAI_MPI_HOST_FILE;     mpirun -np'' @ CHR '' '' # w @ CHR '' '' #
     ''--hostfile $AZ_BATCHAI_MPI_HOST_FILE     -bind-to none -map-by slot     -x NCCL_DEBUG=INFO -x LD_LIBRARY_PATH     -mca btl_tcp_if_include eth0     -x NCCL_SOCKET_IFNAME=eth0     -mca btl ^openib     -x NCCL_IB_DISABLE=1     -x DISTRIBUTED=True     -x AZ_BATCHAI_INPUT_TRAIN     -x AZ_BATCHAI_INPUT_TEST     --allow-run-as-root      '' @ CHR '' '' # fake @ CHR '' '' #
     ''      python -u $AZ_BATCHAI_INPUT_SCRIPTS/imagenet_pytorch_horovod.py''"
  by (simp add: command_line_def)

lemma tokens_head: "tokens_acc [] ''echo $AZ_BATCH_HOST_LIST;     cat $AZ_BATCHAI_MPI_HOST_FILE;     mpirun -np'' = [''echo'', ''$AZ_BATCH_HOST_LIST;'', ''cat'', ''$AZ_BATCHAI_MPI_HOST_FILE;'', ''mpirun'', ''-np'']"
  by (simp add: is_space_def)

lemma tokens_options: "tokens_acc [] ''--hostfile $AZ_BATCHAI_MPI_HOST_FILE     -bind-to none -map-by slot     -x NCCL_DEBUG=INFO -x LD_LIBRARY_PATH     -mca btl_tcp_if_include eth0     -x NCCL_SOCKET_IFNAME=eth0     -mca btl ^openib     -x NCCL_IB_DISABLE=1     -x DISTRIBUTED=True     -x AZ_BATCHAI_INPUT_TRAIN     -x AZ_BATCHAI_INPUT_TEST     --allow-run-as-root      '' = [''--hostfile'', ''$AZ_BATCHAI_MPI_HOST_FILE'', ''-bind-to'', ''none'', ''-map-by'', ''slot'', ''-x'', ''NCCL_DEBUG=INFO'', ''-x'', ''LD_LIBRARY_PATH'', ''-mca'', ''btl_tcp_if_include'', ''eth0'', ''-x'', ''NCCL_SOCKET_IFNAME=eth0'', ''-mca'', ''btl'', ''^openib'', ''-x'', ''NCCL_IB_DISABLE=1'', ''-x'', ''DISTRIBUTED=True'', ''-x'', ''AZ_BATCHAI_INPUT_TRAIN'', ''-x'', ''AZ_BATCHAI_INPUT_TEST'', ''--allow-run-as-root'']"
  by (simp add: is_space_def)

lemma tokens_program: "tokens_acc [] ''      python -u $AZ_BATCHAI_INPUT_SCRIPTS/imagenet_pytorch_horovod.py'' = [''python'', ''-u'', ''$AZ_BATCHAI_INPUT_SCRIPTS/imagenet_pytorch_horovod.py'']"
  by (simp add: is_space_def)

lemma tokens_command_line:
  assumes "w \<noteq> []" and "list_all (\<lambda>c. \<not> is_space c) w"
  shows "tokens (command_line w fake) =
     [''echo'', ''$AZ_BATCH_HOST_LIST;'', ''cat'', ''$AZ_BATCHAI_MPI_HOST_FILE;'', ''mpirun'', ''-np''] @ [w] @
     [''--hostfile'', ''$AZ_BATCHAI_MPI_HOST_FILE'', ''-bind-to'', ''none'', ''-map-by'', ''slot'', ''-x'', ''NCCL_DEBUG=INFO'', ''-x'', ''LD_LIBRARY_PATH'', ''-mca'', ''btl_tcp_if_include'', ''eth0'', ''-x'', ''NCCL_SOCKET_IFNAME=eth0'', ''-mca'', ''btl'', ''^openib'', ''-x'', ''NCCL_IB_DISABLE=1'', ''-x'', ''DISTRIBUTED=True'', ''-x'', ''AZ_BATCHAI_INPUT_TRAIN'', ''-x'', ''AZ_BATCHAI_INPUT_TEST'', ''--allow-run-as-root''] @ tokens fake @
     [''python'', ''-u'', ''$AZ_BATCHAI_INPUT_SCRIPTS/imagenet_pytorch_horovod.py'']"
proof -
  have word: "tokens_acc [] (w @ CHR '' '' # r) = w # tokens_acc [] r" for r
    using assms by (simp add: tokens_acc_word is_space_def)
  show ?thesis
    unfolding tokens_def command_line_split
    apply (subst tokens_acc_blank)
    apply (subst word)
    apply (subst tokens_acc_blank)
    apply (subst tokens_acc_blank)
    apply (simp only: tokens_head tokens_options tokens_program append_Cons append_Nil)
    done
qed

lemma str_int_8: "str_int 8 = ''8''"
  by (simp add: str_int_def digits.simps digit_def)

lemma py_mul_commute: "py_mul a b = py_mul b a"
  by (cases a; cases b) (simp_all add: mult.commute)

lemma tokens_nil: "tokens [] = []"
  by (simp add: tokens_def)

lemma tokens_fake: "tokens ''-env FAKE=True'' = [''-env'', ''FAKE=True'']"
  by (simp add: tokens_def is_space_def)

lemma decimal_token:
  assumes "list_all decimal w"
  shows "w \<noteq> ''FAKE=True''" and "w \<noteq> ''-env''"
  using assms by (auto simp: decimal_def)

lemma tokens_plain:
  "tokens (command_line (str_int n) '''') =
     [''echo'', ''$AZ_BATCH_HOST_LIST;'', ''cat'', ''$AZ_BATCHAI_MPI_HOST_FILE;'', ''mpirun'', ''-np'',
      str_int n] @
     [''--hostfile'', ''$AZ_BATCHAI_MPI_HOST_FILE'', ''-bind-to'', ''none'', ''-map-by'', ''slot'', ''-x'', ''NCCL_DEBUG=INFO'', ''-x'', ''LD_LIBRARY_PATH'', ''-mca'', ''btl_tcp_if_include'', ''eth0'', ''-x'', ''NCCL_SOCKET_IFNAME=eth0'', ''-mca'', ''btl'', ''^openib'', ''-x'', ''NCCL_IB_DISABLE=1'', ''-x'', ''DISTRIBUTED=True'', ''-x'', ''AZ_BATCHAI_INPUT_TRAIN'', ''-x'', ''AZ_BATCHAI_INPUT_TEST'', ''--allow-run-as-root''] @
     [''python'', ''-u'', ''$AZ_BATCHAI_INPUT_SCRIPTS/imagenet_pytorch_horovod.py'']"
  by (simp only: tokens_command_line [OF str_int_nonempty str_int_word] tokens_nil append_Cons append_Nil)

lemma tokens_faked:
  "tokens (command_line (str_int n) ''-env FAKE=True'') =
     [''echo'', ''$AZ_BATCH_HOST_LIST;'', ''cat'', ''$AZ_BATCHAI_MPI_HOST_FILE;'', ''mpirun'', ''-np'',
      str_int n] @
     [''--hostfile'', ''$AZ_BATCHAI_MPI_HOST_FILE'', ''-bind-to'', ''none'', ''-map-by'', ''slot'', ''-x'', ''NCCL_DEBUG=INFO'', ''-x'', ''LD_LIBRARY_PATH'', ''-mca'', ''btl_tcp_if_include'', ''eth0'', ''-x'', ''NCCL_SOCKET_IFNAME=eth0'', ''-mca'', ''btl'', ''^openib'', ''-x'', ''NCCL_IB_DISABLE=1'', ''-x'', ''DISTRIBUTED=True'', ''-x'', ''AZ_BATCHAI_INPUT_TRAIN'', ''-x'', ''AZ_BATCHAI_INPUT_TEST'', ''--allow-run-as-root''] @
     [''-env'', ''FAKE=True''] @
     [''python'', ''-u'', ''$AZ_BATCHAI_INPUT_SCRIPTS/imagenet_pytorch_horovod.py'']"
  by (simp only: tokens_command_line [OF str_int_nonempty str_int_word] tokens_fake append_Cons append_Nil)

lemma product_of_strings: "py_mul (PStr a) (PStr b) = Inl TypeError"
  by simp

lemma product_of_numbers: "py_mul (PInt a) (PInt b) = Inr (PInt (a * b))"
  by simp

text \<open>
  With the two counts bound to the numbers 2 and 4 the same lines give what the comment
  of line 32 announces: 8 processes, \<^verbatim>\<open>nodeCount\<close> 2 and \<^verbatim>\<open>mpirun -np 8\<close>.
\<close>

lemma numeric_scenario:
  "TOTAL_PROCESSES two_by_four = Inr (PInt 8) \<and>
   nodeCount (jobs_dict two_by_four (PInt 8)) = Some (Val (PInt 2)) \<and>
   take 3 (drop 4 (tokens (command_line (str_int 8) ''''))) = [''mpirun'', ''-np'', ''8'']"
proof -
  have tp: "TOTAL_PROCESSES two_by_four = Inr (PInt 8)"
    by (simp add: TOTAL_PROCESSES_def two_by_four_def)
  have nc: "nodeCount (jobs_dict two_by_four (PInt 8)) = Some (Val (PInt 2))"
    by (simp add: nodeCount_def jobs_dict_def two_by_four_def)
  have np: "take 3 (drop 4 (tokens (command_line (str_int 8) ''''))) = [''mpirun'', ''-np'', ''8'']"
    unfolding tokens_plain by (simp add: str_int_8)
  show ?thesis using tp nc np by (simp only: simp_thms)
qed

lemma repeat_once: "repeat s 1 = s"
  by (simp add: repeat_def)

lemma run_completes:
  assumes "TOTAL_PROCESSES p = Inr v"
  shows "run p =
     \<lparr> raised = None,
       shell_log = setup_commands p @ job_commands p (''pytorch-horovod-'' @ py_str v)
                     @ cleanup_commands p,
       job_file = Some (jobs_dict p v) \<rparr>"
proof -
  have "py_mul (NUM_NODES p) (PROCESSES_PER_NODE p) = Inr v"
    using assms by (simp add: TOTAL_PROCESSES_def py_mul_commute)
  then have "JOB_NAME p = Inr (''pytorch-horovod-'' @ py_str v)"
    by (simp add: JOB_NAME_def)
  with assms show ?thesis by (simp add: run_def)
qed

lemma referenced_inputs_skip:
  "CHR ''A'' \<notin> set w \<Longrightarrow> referenced_inputs (w @ r) = referenced_inputs r"
  by (induction w) simp_all

lemma decimal_char_not_A: "decimal c \<Longrightarrow> c \<noteq> CHR ''A''"
  by (auto simp: decimal_def)

lemma decimal_not_A: "list_all decimal w \<Longrightarrow> CHR ''A'' \<notin> set w"
  using decimal_char_not_A by (auto simp: list_all_iff)

lemma input_ids_jobs_dict: "input_ids (jobs_dict p tp) = [''SCRIPTS'', ''TRAIN'', ''TEST'']"
  by (simp add: input_ids_def jobs_dict_def List.map_filter_simps)

lemma referenced_inputs_plain:
  assumes "CHR ''A'' \<notin> set w"
  shows "referenced_inputs (command_line w '''') = [''TRAIN'', ''TEST'', ''SCRIPTS'']"
  using assms by (simp add: command_line_def referenced_inputs_skip is_ident_def)

lemma referenced_inputs_faked:
  assumes "CHR ''A'' \<notin> set w"
  shows "referenced_inputs (command_line w ''-env FAKE=True'') = [''TRAIN'', ''TEST'', ''SCRIPTS'']"
  using assms by (simp add: command_line_def referenced_inputs_skip is_ident_def)

lemma none_product: "py_mul PNone b = Inl TypeError" "py_mul a PNone = Inl TypeError"
  by (cases b, simp_all) (cases a, simp_all)

lemma run_without_count:
  assumes "NUM_NODES p = PNone \<or> PROCESSES_PER_NODE p = PNone"
  shows "run p = \<lparr> raised = Some TypeError, shell_log = [], job_file = None \<rparr>"
proof -
  have "TOTAL_PROCESSES p = Inl TypeError"
    using assms by (auto simp: TOTAL_PROCESSES_def none_product)
  then show ?thesis by (simp add: run_def)
qed

lemma no_prompt_end: "no_prompt (xs @ '' -y'')"
  by (simp add: no_prompt_def suffix_def)

lemma run_ok_value:
  assumes "raised (run p) = None"
  shows "\<exists>v. TOTAL_PROCESSES p = Inr v"
  using assms by (cases "TOTAL_PROCESSES p") (simp_all add: run_def)

lemma uploads_before_submit:
  "all_before is_upload is_submit (setup_commands p @ job_commands p j @ cleanup_commands p)"
  by (simp add: setup_commands_def job_commands_def cleanup_commands_def upload_def
      is_upload_def is_submit_def)

lemma submit_before_monitor:
  "all_before is_submit is_monitor (setup_commands p @ job_commands p j @ cleanup_commands p)"
  by (simp add: setup_commands_def job_commands_def cleanup_commands_def upload_def
      is_monitor_def is_submit_def)

lemma monitor_before_delete:
  "all_before is_monitor is_delete (setup_commands p @ job_commands p j @ cleanup_commands p)"
  by (simp add: setup_commands_def job_commands_def cleanup_commands_def upload_def
      is_monitor_def is_delete_def)

lemma filter_upload:
  "filter is_upload (setup_commands p @ job_commands p j @ cleanup_commands p) =
     [upload p ''src/imagenet_pytorch_horovod.py'', upload p ''../common/timer.py'',
      upload p ''cluster_config/docker.service'', upload p ''cluster_config/nodeprep.sh'']"
  by (simp add: setup_commands_def job_commands_def cleanup_commands_def upload_def is_upload_def)

lemma filter_submit:
  "filter is_submit (setup_commands p @ job_commands p j @ cleanup_commands p) =
     [hd (job_commands p j)]"
  by (simp add: setup_commands_def job_commands_def cleanup_commands_def upload_def is_submit_def)

lemma filter_monitor:
  "filter is_monitor (setup_commands p @ job_commands p j @ cleanup_commands p) =
     take 4 (tl (job_commands p j))"
  by (simp add: setup_commands_def job_commands_def cleanup_commands_def upload_def is_monitor_def)

lemma filter_delete:
  "filter is_delete (setup_commands p @ job_commands p j @ cleanup_commands p) =
     [''az batchai job delete -w '' @ py_str (WORKSPACE p) @ '' -e '' @ py_str (EXPERIMENT p) @
        '' --name '' @ j @ '' -y'',
      ''az batchai cluster delete -w '' @ py_str (WORKSPACE p) @ '' --name '' @
        py_str (CLUSTER_NAME p) @ '' -g '' @ py_str (GROUP_NAME p) @ '' -y'',
      ''az batchai experiment delete -w '' @ py_str (WORKSPACE p) @ '' --name '' @
        py_str (EXPERIMENT p) @ '' -g '' @ py_str (GROUP_NAME p) @ '' -y'',
      ''az batchai workspace delete -n '' @ py_str (WORKSPACE p) @ '' -g '' @
        py_str (GROUP_NAME p) @ '' -y'',
      ''az group delete --name '' @ py_str (GROUP_NAME p) @ '' -y'']"
  by (simp add: setup_commands_def job_commands_def cleanup_commands_def upload_def is_delete_def)

lemma no_prompt_base: "no_prompt '' -y''"
  by (simp add: no_prompt_def)

lemma no_prompt_app: "no_prompt ys \<Longrightarrow> no_prompt (xs @ ys)"
  by (simp add: no_prompt_def suffix_appendI)

lemma deletes_no_prompt:
  "list_all no_prompt
     [''az batchai job delete -w '' @ py_str (WORKSPACE p) @ '' -e '' @ py_str (EXPERIMENT p) @
        '' --name '' @ j @ '' -y'',
      ''az batchai cluster delete -w '' @ py_str (WORKSPACE p) @ '' --name '' @
        py_str (CLUSTER_NAME p) @ '' -g '' @ py_str (GROUP_NAME p) @ '' -y'',
      ''az batchai experiment delete -w '' @ py_str (WORKSPACE p) @ '' --name '' @
        py_str (EXPERIMENT p) @ '' -g '' @ py_str (GROUP_NAME p) @ '' -y'',
      ''az batchai workspace delete -n '' @ py_str (WORKSPACE p) @ '' -g '' @
        py_str (GROUP_NAME p) @ '' -y'',
      ''az group delete --name '' @ py_str (GROUP_NAME p) @ '' -y'']"
  unfolding list.pred_inject
  by (intro conjI no_prompt_app no_prompt_base) simp

subsection \<open>The job file: strings\<close>

lemma hex_digit_value: "k < 16 \<Longrightarrow> hex_value (hex_digit k) = Some k"
proof -
  assume "k < 16"
  then have "k = 0 \<or> k = 1 \<or> k = 2 \<or> k = 3 \<or> k = 4 \<or> k = 5 \<or> k = 6 \<or> k = 7
    \<or> k = 8 \<or> k = 9 \<or> k = 10 \<or> k = 11 \<or> k = 12 \<or> k = 13 \<or> k = 14 \<or> k = 15"
    by arith
  then show ?thesis
    by (elim disjE) (simp_all add: hex_digit_def hex_value_def)
qed

lemma hex_value_zero: "hex_value CHR ''0'' = Some 0"
  by (simp add: hex_value_def)

lemma hex4_control:
  assumes "(of_char c :: nat) < 32"
  shows "hex4 CHR ''0'' CHR ''0'' (hex_digit (of_char c div 16)) (hex_digit (of_char c mod 16)) = Some c"
proof -
  have a: "hex_value (hex_digit (of_char c div 16)) = Some (of_char c div 16)"
    using assms by (intro hex_digit_value) simp
  have b: "hex_value (hex_digit (of_char c mod 16)) = Some (of_char c mod 16)"
    by (intro hex_digit_value) simp
  have "(of_char c :: nat) div 16 * 16 + of_char c mod 16 = of_char c"
    by simp
  then show ?thesis
    using assms by (simp add: hex4_def hex_value_zero a b)
qed

lemma json_string_escape:
  "json_string (escape_char c @ r) =
     (case json_string r of None \<Rightarrow> None | Some (s, r3) \<Rightarrow> Some (c # s, r3))"
proof -
  consider "c = CHR 0x22" | "c = CHR 0x5C"
    | "c \<noteq> CHR 0x22" "c \<noteq> CHR 0x5C" "(of_char c :: nat) < 32"
    | "c \<noteq> CHR 0x22" "c \<noteq> CHR 0x5C" "\<not> (of_char c :: nat) < 32"
    by blast
  then show ?thesis
  proof cases
    case 1
    show ?thesis unfolding 1 by (simp add: escape_char_def unescape_def)
  next
    case 2
    show ?thesis unfolding 2 by (simp add: escape_char_def unescape_def)
  next
    case 3
    then show ?thesis by (simp add: escape_char_def hex4_control)
  next
    case 4
    then show ?thesis by (simp add: escape_char_def)
  qed
qed

lemma json_string_escaped:
  "json_string (concat (map escape_char s) @ CHR 0x22 # r) = Some (s, r)"
  by (induction s) (simp_all add: json_string_escape)

lemma json_string_quote: "json_string (tl (quote s) @ r) = Some (s, r)"
  using json_string_escaped [of s r] by (simp add: quote_def)

subsection \<open>The job file: integers\<close>

lemma of_char_digit: "(of_char (digit n) :: nat) = 48 + n mod 10"
proof -
  have "n mod 10 < 10" by simp
  then have "n mod 10 = 0 \<or> n mod 10 = 1 \<or> n mod 10 = 2 \<or> n mod 10 = 3 \<or> n mod 10 = 4
    \<or> n mod 10 = 5 \<or> n mod 10 = 6 \<or> n mod 10 = 7 \<or> n mod 10 = 8 \<or> n mod 10 = 9"
    by arith
  then show ?thesis
    by (elim disjE) (simp_all add: digit_def)
qed

lemma is_digit_digit: "is_digit (digit n)"
  by (simp add: is_digit_def of_char_digit)

lemma nat_of_digits_snoc:
  "nat_of_digits (ds @ [c]) = 10 * nat_of_digits ds + (of_char c - 48)"
  by (simp add: nat_of_digits_def)

lemma digits_all_digit: "list_all is_digit (digits n)"
proof (induction n rule: digits.induct)
  case (1 n)
  show ?case
  proof (cases "n < 10")
    case True
    then show ?thesis by (subst digits.simps) (simp add: is_digit_digit)
  next
    case False
    then show ?thesis using 1 by (subst digits.simps) (simp add: is_digit_digit)
  qed
qed

lemma nat_of_digits_digits: "nat_of_digits (digits n) = n"
proof (induction n rule: digits.induct)
  case (1 n)
  show ?case
  proof (cases "n < 10")
    case True
    then show ?thesis
      by (subst digits.simps) (simp add: nat_of_digits_def of_char_digit)
  next
    case False
    then have "nat_of_digits (digits (n div 10)) = n div 10" using 1 by simp
    then show ?thesis
      using False by (subst digits.simps) (simp add: nat_of_digits_snoc of_char_digit)
  qed
qed

lemma json_nat_digits:
  assumes "r = [] \<or> \<not> is_digit (hd r)"
  shows "json_nat (digits n @ r) = Some (n, r)"
proof -
  have all: "\<forall>c \<in> set (digits n). is_digit c"
    using digits_all_digit [of n] by (simp add: list_all_iff)
  have stop: "takeWhile is_digit r = []" "dropWhile is_digit r = r"
    using assms by (cases r; simp)+
  have t: "takeWhile is_digit (digits n @ r) = digits n"
    using all stop by (simp add: takeWhile_append2)
  have d: "dropWhile is_digit (digits n @ r) = r"
    using all stop by (simp add: dropWhile_append2)
  show ?thesis
    by (simp add: json_nat_def t d digits_nonempty nat_of_digits_digits)
qed

lemma digits_head: "\<exists>c ds. digits n = c # ds \<and> is_digit c"
  using digits_all_digit [of n] digits_nonempty [of n] by (cases "digits n") simp_all

lemma is_digit_not_minus: "is_digit c \<Longrightarrow> c \<noteq> CHR ''-''"
  by (auto simp: is_digit_def)

lemma json_int_str_int:
  assumes "r = [] \<or> \<not> is_digit (hd r)"
  shows "json_int (str_int i @ r) = Some (i, r)"
proof (cases "i < 0")
  case True
  then show ?thesis
    by (simp add: str_int_def json_int_def json_nat_digits [OF assms])
next
  case False
  obtain c ds where cd: "digits (nat i) = c # ds" "is_digit c"
    using digits_head by blast
  have "json_nat (digits (nat i) @ r) = Some (nat i, r)"
    by (rule json_nat_digits [OF assms])
  then show ?thesis
    using False cd is_digit_not_minus [OF cd(2)] by (simp add: str_int_def json_int_def)
qed

subsection \<open>The job file: reading back what was written\<close>

lemma skip_ws_blank: "skip_ws (CHR '' '' # s) = skip_ws s"
  by (simp add: skip_ws_def is_ws_def)

lemma skip_ws_stay: "\<not> is_ws c \<Longrightarrow> skip_ws (c # s) = c # s"
  by (simp add: skip_ws_def)

lemma parse_value_blank: "parse_value n (CHR '' '' # s) = parse_value n s"
  by (cases n) (simp_all add: skip_ws_blank)

lemma parse_items_blank: "parse_items n (CHR '' '' # s) = parse_items n s"
  by (cases n) (simp_all add: parse_value_blank)

lemma parse_members_blank: "parse_members n (CHR '' '' # s) = parse_members n s"
  by (cases n) (simp_all add: skip_ws_blank)

lemma parse_null: "parse_value (Suc n) (''null'' @ r) = Some (Val PNone, r)"
  by (simp add: skip_ws_def is_ws_def)

lemma parse_true: "parse_value (Suc n) (''true'' @ r) = Some (Val (PBool True), r)"
  by (simp add: skip_ws_def is_ws_def)

lemma parse_false: "parse_value (Suc n) (''false'' @ r) = Some (Val (PBool False), r)"
  by (simp add: skip_ws_def is_ws_def)

lemma parse_quoted: "parse_value (Suc n) (quote s @ r) = Some (Val (PStr s), r)"
proof -
  have q: "quote s @ r = CHR 0x22 # (concat (map escape_char s) @ CHR 0x22 # r)"
    by (simp add: quote_def)
  show ?thesis
    unfolding q by (simp add: skip_ws_def is_ws_def json_string_escaped)
qed

lemma number_head:
  assumes "c = CHR ''-'' \<or> is_digit c"
  shows "\<not> is_ws c" "c \<noteq> CHR ''n''" "c \<noteq> CHR ''t''" "c \<noteq> CHR ''f''" "c \<noteq> CHR 0x22"
    "c \<noteq> CHR ''[''" "c \<noteq> CHR ''{''"
  using assms by (auto simp: is_digit_def is_ws_def)

lemma str_int_head: "\<exists>c ds. str_int i = c # ds \<and> (c = CHR ''-'' \<or> is_digit c)"
  using digits_head [of "nat i"] by (auto simp: str_int_def)

lemma parse_number:
  assumes "r = [] \<or> \<not> is_digit (hd r)"
  shows "parse_value (Suc n) (str_int i @ r) = Some (Val (PInt i), r)"
proof -
  obtain c ds where cd: "str_int i = c # ds" "c = CHR ''-'' \<or> is_digit c"
    using str_int_head by blast
  have "json_int (c # ds @ r) = Some (i, r)"
    using json_int_str_int [OF assms, of i] by (simp add: cd(1))
  then show ?thesis
    using number_head [OF cd(2)] by (simp add: cd(1) skip_ws_stay)
qed

lemma parse_val:
  assumes "r = [] \<or> \<not> is_digit (hd r)"
  shows "parse_value (Suc n) (dumps_val v @ r) = Some (Val v, r)"
proof (cases v)
  case PNone
  then show ?thesis using parse_null by simp
next
  case (PBool b)
  then show ?thesis using parse_true parse_false by (cases b) simp_all
next
  case (PInt i)
  then show ?thesis using parse_number [OF assms] by simp
next
  case (PStr s)
  then show ?thesis using parse_quoted by simp
qed

lemma dumps_val_head:
  "\<exists>c t. dumps_val v = c # t \<and> \<not> is_ws c \<and> c \<noteq> CHR '']'' \<and> c \<noteq> CHR ''}''"
proof (cases v)
  case (PInt i)
  obtain c ds where cd: "str_int i = c # ds" "c = CHR ''-'' \<or> is_digit c"
    using str_int_head by blast
  have "c \<noteq> CHR '']''" "c \<noteq> CHR ''}''"
    using cd(2) by (auto simp: is_digit_def)
  then show ?thesis using PInt cd number_head(1) [OF cd(2)] by simp
qed (simp_all add: is_ws_def quote_def)

lemma dumps_head:
  "\<exists>c t. dumps d = c # t \<and> \<not> is_ws c \<and> c \<noteq> CHR '']'' \<and> c \<noteq> CHR ''}''"
  using dumps_val_head by (cases d) (simp_all add: is_ws_def)

lemma dumps_items_head:
  assumes "xs \<noteq> []"
  shows "\<exists>c t. dumps_items xs = c # t \<and> \<not> is_ws c \<and> c \<noteq> CHR '']''"
proof -
  obtain x ys where xs: "xs = x # ys" using assms by (cases xs) auto
  obtain c t where ct: "dumps x = c # t" "\<not> is_ws c" "c \<noteq> CHR '']''"
    using dumps_head by blast
  show ?thesis using ct by (cases ys) (simp_all add: xs)
qed

lemma dumps_members_head:
  assumes "kvs \<noteq> []"
  shows "\<exists>t. dumps_members kvs = CHR 0x22 # t"
proof -
  obtain k v ys where kvs: "kvs = (k, v) # ys" using assms by (cases kvs) auto
  show ?thesis by (cases ys) (simp_all add: kvs quote_def)
qed

lemma parse_list:
  assumes "\<not> is_ws c" and "c \<noteq> CHR '']''"
  shows "parse_value (Suc n) (CHR ''['' # c # s) =
     (case parse_items n (c # s) of None \<Rightarrow> None | Some (xs, r) \<Rightarrow> Some (List xs, r))"
  using assms by (simp add: skip_ws_def is_ws_def)

lemma parse_empty_list: "parse_value (Suc n) (CHR ''['' # CHR '']'' # r) = Some (List [], r)"
  by (simp add: skip_ws_def is_ws_def)

lemma parse_dict:
  "parse_value (Suc n) (CHR ''{'' # CHR 0x22 # s) =
     (case parse_members n (CHR 0x22 # s) of None \<Rightarrow> None | Some (kvs, r) \<Rightarrow> Some (Dict kvs, r))"
  by (simp add: skip_ws_def is_ws_def)

lemma parse_empty_dict: "parse_value (Suc n) (CHR ''{'' # CHR ''}'' # r) = Some (Dict [], r)"
  by (simp add: skip_ws_def is_ws_def)

lemma parse_item_step:
  assumes "parse_value n s = Some (x, c # r)"
  shows "c = CHR '']'' \<Longrightarrow> parse_items (Suc n) s = Some ([x], r)"
    and "c = CHR '','' \<Longrightarrow> parse_items (Suc n) s =
      (case parse_items n r of None \<Rightarrow> None | Some (xs, r') \<Rightarrow> Some (x # xs, r'))"
  using assms by (simp_all add: skip_ws_def is_ws_def)

lemma parse_member_step:
  assumes "parse_value n s = Some (v, c # r)"
  shows "c = CHR ''}'' \<Longrightarrow>
      parse_members (Suc n) (quote k @ CHR '':'' # s) = Some ([(k, v)], r)"
    and "c = CHR '','' \<Longrightarrow> parse_members (Suc n) (quote k @ CHR '':'' # s) =
      (case parse_members n r of None \<Rightarrow> None | Some (kvs, r') \<Rightarrow> Some ((k, v) # kvs, r'))"
proof -
  have q: "quote k @ CHR '':'' # s = CHR 0x22 # (concat (map escape_char k) @ CHR 0x22 # CHR '':'' # s)"
    by (simp add: quote_def)
  show "c = CHR ''}'' \<Longrightarrow>
      parse_members (Suc n) (quote k @ CHR '':'' # s) = Some ([(k, v)], r)"
    unfolding q using assms by (simp add: skip_ws_def is_ws_def json_string_escaped)
  show "c = CHR '','' \<Longrightarrow> parse_members (Suc n) (quote k @ CHR '':'' # s) =
      (case parse_members n r of None \<Rightarrow> None | Some (kvs, r') \<Rightarrow> Some ((k, v) # kvs, r'))"
    unfolding q using assms by (simp add: skip_ws_def is_ws_def json_string_escaped)
qed

lemma not_digit_delimiter:
  "\<not> is_digit CHR '']''" "\<not> is_digit CHR ''}''" "\<not> is_digit CHR '',''"
  by (simp_all add: is_digit_def)

lemma parse_dumps:
  "cost d \<le> n \<longrightarrow> (r = [] \<or> \<not> is_digit (hd r)) \<longrightarrow>
     parse_value n (dumps d @ r) = Some (d, r)"
  "xs \<noteq> [] \<longrightarrow> cost_items xs \<le> n \<longrightarrow>
     parse_items n (dumps_items xs @ CHR '']'' # r) = Some (xs, r)"
  "kvs \<noteq> [] \<longrightarrow> cost_members kvs \<le> n \<longrightarrow>
     parse_members n (dumps_members kvs @ CHR ''}'' # r) = Some (kvs, r)"
proof (induction d and xs and kvs arbitrary: n r and n r and n r
    rule: dumps_dumps_items_dumps_members.induct)
  case (1 v)
  show ?case
  proof (intro impI)
    assume c: "cost (Val v) \<le> n" and e: "r = [] \<or> \<not> is_digit (hd r)"
    then obtain m where n: "n = Suc m" by (cases n) auto
    show "parse_value n (dumps (Val v) @ r) = Some (Val v, r)"
      unfolding n using parse_val [OF e] by simp
  qed
next
  case (2 xs)
  show ?case
  proof (intro impI)
    assume c: "cost (List xs) \<le> n" and e: "r = [] \<or> \<not> is_digit (hd r)"
    then obtain m where n: "n = Suc m" by (cases n) auto
    show "parse_value n (dumps (List xs) @ r) = Some (List xs, r)"
    proof (cases "xs = []")
      case True
      then show ?thesis unfolding n using parse_empty_list by simp
    next
      case False
      obtain c t where ct: "dumps_items xs = c # t" "\<not> is_ws c" "c \<noteq> CHR '']''"
        using dumps_items_head [OF False] by blast
      have "parse_items m (dumps_items xs @ CHR '']'' # r) = Some (xs, r)"
        using 2 [of m r] False c n by simp
      then have "parse_items m (c # t @ CHR '']'' # r) = Some (xs, r)"
        by (simp add: ct(1))
      then show ?thesis
        unfolding n using parse_list [OF ct(2,3), of m "t @ CHR '']'' # r"] by (simp add: ct(1))
    qed
  qed
next
  case (3 kvs)
  show ?case
  proof (intro impI)
    assume c: "cost (Dict kvs) \<le> n" and e: "r = [] \<or> \<not> is_digit (hd r)"
    then obtain m where n: "n = Suc m" by (cases n) auto
    show "parse_value n (dumps (Dict kvs) @ r) = Some (Dict kvs, r)"
    proof (cases "kvs = []")
      case True
      then show ?thesis unfolding n using parse_empty_dict by simp
    next
      case False
      obtain t where ct: "dumps_members kvs = CHR 0x22 # t"
        using dumps_members_head [OF False] by blast
      have "parse_members m (dumps_members kvs @ CHR ''}'' # r) = Some (kvs, r)"
        using 3 [of m r] False c n by simp
      then have "parse_members m (CHR 0x22 # t @ CHR ''}'' # r) = Some (kvs, r)"
        by (simp add: ct)
      then show ?thesis
        unfolding n using parse_dict [of m "t @ CHR ''}'' # r"] by (simp add: ct)
    qed
  qed
next
  case 4
  show ?case by simp
next
  case (5 x)
  show ?case
  proof (intro impI)
    assume c: "cost_items [x] \<le> n"
    then obtain m where n: "n = Suc m" by (cases n) auto
    have "parse_value m (dumps x @ CHR '']'' # r) = Some (x, CHR '']'' # r)"
      using 5 [of m "CHR '']'' # r"] c n by (simp add: not_digit_delimiter)
    then show "parse_items n (dumps_items [x] @ CHR '']'' # r) = Some ([x], r)"
      unfolding n using parse_item_step(1) by simp
  qed
next
  case (6 x y ys)
  show ?case
  proof (intro impI)
    assume c: "cost_items (x # y # ys) \<le> n"
    then obtain m where n: "n = Suc m" by (cases n) auto
    let ?tail = "dumps_items (y # ys) @ CHR '']'' # r"
    have v: "parse_value m (dumps x @ CHR '','' # CHR '' '' # ?tail)
        = Some (x, CHR '','' # CHR '' '' # ?tail)"
      using 6(1) [of m "CHR '','' # CHR '' '' # ?tail"] c n by (simp add: not_digit_delimiter)
    have i: "parse_items m (CHR '' '' # ?tail) = Some (y # ys, r)"
      unfolding parse_items_blank using 6(2) [of m r] c n by simp
    have "parse_items (Suc m) (dumps x @ CHR '','' # CHR '' '' # ?tail) = Some (x # y # ys, r)"
      using parse_item_step(2) [OF v] i by simp
    then show "parse_items n (dumps_items (x # y # ys) @ CHR '']'' # r) = Some (x # y # ys, r)"
      unfolding n by simp
  qed
next
  case 7
  show ?case by simp
next
  case (8 k v)
  show ?case
  proof (intro impI)
    assume c: "cost_members [(k, v)] \<le> n"
    then obtain m where n: "n = Suc m" by (cases n) auto
    have "parse_value m (dumps v @ CHR ''}'' # r) = Some (v, CHR ''}'' # r)"
      using 8 [of m "CHR ''}'' # r"] c n by (simp add: not_digit_delimiter)
    then have "parse_value m (CHR '' '' # dumps v @ CHR ''}'' # r) = Some (v, CHR ''}'' # r)"
      by (simp add: parse_value_blank)
    then have "parse_members (Suc m) (quote k @ CHR '':'' # CHR '' '' # dumps v @ CHR ''}'' # r)
        = Some ([(k, v)], r)"
      using parse_member_step(1) by simp
    then show "parse_members n (dumps_members [(k, v)] @ CHR ''}'' # r) = Some ([(k, v)], r)"
      unfolding n by simp
  qed
next
  case (9 k v kv kvs)
  show ?case
  proof (intro impI)
    assume c: "cost_members ((k, v) # kv # kvs) \<le> n"
    then obtain m where n: "n = Suc m" by (cases n) auto
    let ?tail = "dumps_members (kv # kvs) @ CHR ''}'' # r"
    have le: "cost v \<le> m" "cost_members (kv # kvs) \<le> m"
      using c n by simp_all
    have "parse_value m (dumps v @ CHR '','' # CHR '' '' # ?tail)
        = Some (v, CHR '','' # CHR '' '' # ?tail)"
      using 9(1) [of m "CHR '','' # CHR '' '' # ?tail"] le by (simp add: not_digit_delimiter)
    then have v: "parse_value m (CHR '' '' # dumps v @ CHR '','' # CHR '' '' # ?tail)
        = Some (v, CHR '','' # CHR '' '' # ?tail)"
      by (simp add: parse_value_blank)
    have i: "parse_members m (CHR '' '' # ?tail) = Some (kv # kvs, r)"
      unfolding parse_members_blank using 9(2) [of m r] le by simp
    have "parse_members (Suc m)
        (quote k @ CHR '':'' # CHR '' '' # dumps v @ CHR '','' # CHR '' '' # ?tail)
        = Some ((k, v) # kv # kvs, r)"
      using parse_member_step(2) [OF v] i by simp
    then show "parse_members n (dumps_members ((k, v) # kv # kvs) @ CHR ''}'' # r)
        = Some ((k, v) # kv # kvs, r)"
      unfolding n by simp
  qed
qed

lemma dumps_val_nonempty: "dumps_val v \<noteq> []"
  using dumps_val_head [of v] by auto

lemma cost_le_length:
  "cost d \<le> length (dumps d)"
  "cost_items xs \<le> Suc (length (dumps_items xs))"
  "cost_members kvs \<le> Suc (length (dumps_members kvs))"
proof (induction d and xs and kvs rule: dumps_dumps_items_dumps_members.induct)
  case (1 v)
  then show ?case using dumps_val_nonempty [of v] by (cases "dumps_val v") simp_all
qed simp_all

lemma loads_dumps: "loads (dumps d) = Some d"
proof -
  have "cost d \<le> Suc (length (dumps d))"
    using cost_le_length(1) [of d] by simp
  then have "parse_value (Suc (length (dumps d))) (dumps d @ []) = Some (d, [])"
    using parse_dumps(1) [of d "Suc (length (dumps d))" "[]"] by simp
  then show ?thesis
    by (simp add: loads_def skip_ws_def)
qed

section \<open>The claims\<close>

text \<open>
  C1. For a configuration that supplies NUM_NODES and PROCESSES_PER_NODE, the claim has
  TOTAL_PROCESSES equal to their arithmetic product. The notebook reads both keys with
  \<^verbatim>\<open>get_key\<close>, which returns text: with NUM_NODES=2 and PROCESSES_PER_NODE=4 in the
  store the two variables are the strings '2' and '4', and line 53 multiplies a string by
  a string, which raises TypeError. No TOTAL_PROCESSES is computed.
\<close>

theorem total_processes_of_dotenv_strings:
  "NUM_NODES (parameters_cell [''NUM_NODES'' \<mapsto> ''2'', ''PROCESSES_PER_NODE'' \<mapsto> ''4''] Map.empty)
     = PStr ''2'' \<and>
   PROCESSES_PER_NODE
     (parameters_cell [''NUM_NODES'' \<mapsto> ''2'', ''PROCESSES_PER_NODE'' \<mapsto> ''4''] Map.empty)
     = PStr ''4'' \<and>
   TOTAL_PROCESSES
     (parameters_cell [''NUM_NODES'' \<mapsto> ''2'', ''PROCESSES_PER_NODE'' \<mapsto> ''4''] Map.empty)
     = Inl TypeError"
  by (simp add: TOTAL_PROCESSES_def parameters_cell_def get_key_def)

text \<open>
  C5. The scenario NUM_NODES=2, PROCESSES_PER_NODE=4, GPU_TYPE=V100 (USE_FAKE is False in
  the source): the claim expects a descriptor with nodeCount 2 and \<^verbatim>\<open>mpirun -np 8\<close>.
  Run on a store with these three keys, the notebook stops at line 53 with TypeError: no
  shell line has been issued and no descriptor has been written.
\<close>

theorem scenario_two_by_four_stops:
  "notebook
     [''NUM_NODES'' \<mapsto> ''2'', ''PROCESSES_PER_NODE'' \<mapsto> ''4'', ''GPU_TYPE'' \<mapsto> ''V100'']
     Map.empty
   = \<lparr> raised = Some TypeError, shell_log = [], job_file = None \<rparr>"
  by (simp add: notebook_def run_def TOTAL_PROCESSES_def parameters_cell_def get_key_def)

text \<open>
  C4. The claim: setting USE_FAKE to true changes the command line only by appending one
  token, \<^verbatim>\<open>-env FAKE=True\<close>, which then occurs exactly once. In the source the
  field \<^verbatim>\<open>{FAKE}\<close> stands between \<^verbatim>\<open>--allow-run-as-root\<close> and
  \<^verbatim>\<open>python -u ...\<close>, so the token is not appended. With 2 nodes and 4 processes
  per node (process count 8) the command line without the flag is not a prefix of the one
  with the flag, neither as text nor as a sequence of tokens, and the last token of the
  command line with the flag is the path of the training script.
\<close>

theorem fake_flag_not_appended:
  "commandLine (jobs_dict (two_by_four\<lparr>USE_FAKE := PBool False\<rparr>) (PInt 8))
     = Some (command_line ''8'' '''') \<and>
   commandLine (jobs_dict (two_by_four\<lparr>USE_FAKE := PBool True\<rparr>) (PInt 8))
     = Some (command_line ''8'' ''-env FAKE=True'') \<and>
   \<not> prefix (command_line ''8'' '''') (command_line ''8'' ''-env FAKE=True'') \<and>
   \<not> prefix (tokens (command_line ''8'' '''')) (tokens (command_line ''8'' ''-env FAKE=True'')) \<and>
   last (tokens (command_line ''8'' ''-env FAKE=True'')) =
     ''$AZ_BATCHAI_INPUT_SCRIPTS/imagenet_pytorch_horovod.py''"
proof -
  have off: "commandLine (jobs_dict (two_by_four\<lparr>USE_FAKE := PBool False\<rparr>) (PInt 8))
     = Some (command_line ''8'' '''')"
    by (simp add: commandLine_jobs_dict FAKE_def str_int_8)
  have on: "commandLine (jobs_dict (two_by_four\<lparr>USE_FAKE := PBool True\<rparr>) (PInt 8))
     = Some (command_line ''8'' ''-env FAKE=True'')"
    by (simp add: commandLine_jobs_dict FAKE_def str_int_8)
  have str: "\<not> prefix (command_line ''8'' '''') (command_line ''8'' ''-env FAKE=True'')"
    by (simp add: command_line_def)
  have toks: "\<not> prefix (tokens (command_line ''8'' '''')) (tokens (command_line ''8'' ''-env FAKE=True''))"
    using tokens_plain [of 8] tokens_faked [of 8] by (simp add: str_int_8)
  have lst: "last (tokens (command_line ''8'' ''-env FAKE=True'')) =
     ''$AZ_BATCHAI_INPUT_SCRIPTS/imagenet_pytorch_horovod.py''"
    using tokens_faked [of 8] by (simp add: str_int_8)
  show ?thesis using off on str toks lst by (simp only: simp_thms)
qed

text \<open>
  C4, as amended. For every integer process count, the tokens of the command line with
  USE_FAKE true are the tokens of the command line with USE_FAKE false with the two words
  \<^verbatim>\<open>-env\<close> and \<^verbatim>\<open>FAKE=True\<close> inserted after the 34th token,
  \<^verbatim>\<open>--allow-run-as-root\<close>, and before \<^verbatim>\<open>python -u <script>\<close>; every
  other token is unchanged and in place. Each of the two words occurs exactly once with
  the flag and not at all without it.
\<close>

theorem fake_flag_inserted:
  "commandLine (jobs_dict (p\<lparr>USE_FAKE := PBool False\<rparr>) (PInt n))
     = Some (command_line (str_int n) '''') \<and>
   commandLine (jobs_dict (p\<lparr>USE_FAKE := PBool True\<rparr>) (PInt n))
     = Some (command_line (str_int n) ''-env FAKE=True'') \<and>
   tokens (command_line (str_int n) ''-env FAKE=True'') =
     take 34 (tokens (command_line (str_int n) '''')) @ [''-env'', ''FAKE=True''] @
     drop 34 (tokens (command_line (str_int n) '''')) \<and>
   last (take 34 (tokens (command_line (str_int n) ''''))) = ''--allow-run-as-root'' \<and>
   drop 34 (tokens (command_line (str_int n) '''')) =
     [''python'', ''-u'', ''$AZ_BATCHAI_INPUT_SCRIPTS/imagenet_pytorch_horovod.py''] \<and>
   count_list (tokens (command_line (str_int n) ''-env FAKE=True'')) ''-env'' = 1 \<and>
   count_list (tokens (command_line (str_int n) ''-env FAKE=True'')) ''FAKE=True'' = 1 \<and>
   count_list (tokens (command_line (str_int n) '''')) ''-env'' = 0 \<and>
   count_list (tokens (command_line (str_int n) '''')) ''FAKE=True'' = 0"
proof -
  have off: "commandLine (jobs_dict (p\<lparr>USE_FAKE := PBool False\<rparr>) (PInt n))
     = Some (command_line (str_int n) '''')"
    by (simp add: commandLine_jobs_dict FAKE_def)
  have on: "commandLine (jobs_dict (p\<lparr>USE_FAKE := PBool True\<rparr>) (PInt n))
     = Some (command_line (str_int n) ''-env FAKE=True'')"
    by (simp add: commandLine_jobs_dict FAKE_def)
  have ne: "str_int n \<noteq> ''-env''" "str_int n \<noteq> ''FAKE=True''"
    using decimal_token [OF str_int_decimal [of n]] by simp_all
  have ins: "tokens (command_line (str_int n) ''-env FAKE=True'') =
     take 34 (tokens (command_line (str_int n) '''')) @ [''-env'', ''FAKE=True''] @
     drop 34 (tokens (command_line (str_int n) ''''))"
    unfolding tokens_plain tokens_faked by simp
  have lst: "last (take 34 (tokens (command_line (str_int n) ''''))) = ''--allow-run-as-root''"
    unfolding tokens_plain by simp
  have dr: "drop 34 (tokens (command_line (str_int n) '''')) =
     [''python'', ''-u'', ''$AZ_BATCHAI_INPUT_SCRIPTS/imagenet_pytorch_horovod.py'']"
    unfolding tokens_plain by simp
  have c1: "count_list (tokens (command_line (str_int n) ''-env FAKE=True'')) ''-env'' = 1"
    unfolding tokens_faked using ne by simp
  have c2: "count_list (tokens (command_line (str_int n) ''-env FAKE=True'')) ''FAKE=True'' = 1"
    unfolding tokens_faked using ne by simp
  have c3: "count_list (tokens (command_line (str_int n) '''')) ''-env'' = 0"
    unfolding tokens_plain using ne by simp
  have c4: "count_list (tokens (command_line (str_int n) '''')) ''FAKE=True'' = 0"
    unfolding tokens_plain using ne by simp
  show ?thesis
    using off on ins lst dr c1 c2 c3 c4 by (simp only: simp_thms)
qed

text \<open>
  C9. The image of the descriptor is DOCKERHUB followed by
  \<^verbatim>\<open>/caia-horovod-pytorch\<close>, where DOCKERHUB is the environment variable
  DOCKER_REPOSITORY when it is set and \<^verbatim>\<open>masalvar\<close> otherwise. This holds for every
  \<^verbatim>\<open>.env\<close> store and every value of TOTAL_PROCESSES; the suffix is a literal of the
  source.
\<close>

theorem image_reference:
  "image_of (jobs_dict (parameters_cell dotenv environ) total_processes) =
     Some ((case environ ''DOCKER_REPOSITORY'' of None \<Rightarrow> ''masalvar'' | Some r \<Rightarrow> r)
           @ ''/caia-horovod-pytorch'')"
  by (simp add: image_jobs_dict parameters_cell_def getenv_def split: option.splits)

text \<open>
  C10. Whenever line 53 gives TOTAL_PROCESSES a value \<open>v\<close>, line 124 computes the same
  value (the product with the operands exchanged), so JOB_NAME is
  \<^verbatim>\<open>pytorch-horovod-\<close> followed by \<open>str v\<close>, the command line of the descriptor
  has \<open>str v\<close> right after \<^verbatim>\<open>mpirun -np\<close>, and the run issues its job commands
  under that name and writes that descriptor.
\<close>

theorem job_name_agrees_with_np:
  assumes "TOTAL_PROCESSES p = Inr v"
  shows "JOB_NAME p = Inr (''pytorch-horovod-'' @ py_str v) \<and>
    commandLine (jobs_dict p v) = Some (command_line (py_str v) (FAKE p)) \<and>
    (\<exists>rest. command_line (py_str v) (FAKE p) =
       ''echo $AZ_BATCH_HOST_LIST;     cat $AZ_BATCHAI_MPI_HOST_FILE;     mpirun -np '' @
       py_str v @ '' --hostfile '' @ rest) \<and>
    run p =
     \<lparr> raised = None,
       shell_log = setup_commands p @ job_commands p (''pytorch-horovod-'' @ py_str v)
                     @ cleanup_commands p,
       job_file = Some (jobs_dict p v) \<rparr>"
proof -
  have "py_mul (NUM_NODES p) (PROCESSES_PER_NODE p) = Inr v"
    using assms by (simp add: TOTAL_PROCESSES_def py_mul_commute)
  then have name: "JOB_NAME p = Inr (''pytorch-horovod-'' @ py_str v)"
    by (simp add: JOB_NAME_def)
  have np: "\<exists>rest. command_line (py_str v) (FAKE p) =
       ''echo $AZ_BATCH_HOST_LIST;     cat $AZ_BATCHAI_MPI_HOST_FILE;     mpirun -np '' @
       py_str v @ '' --hostfile '' @ rest"
    by (simp add: command_line_def)
  show ?thesis
    using name np run_completes [OF assms] by (simp add: commandLine_jobs_dict)
qed

text \<open>
  C10 on the run with 2 nodes and 4 processes per node.
\<close>

theorem job_name_agrees_with_np_witness:
  "TOTAL_PROCESSES two_by_four = Inr (PInt 8) \<and>
   JOB_NAME two_by_four = Inr ''pytorch-horovod-8'' \<and>
   commandLine (jobs_dict two_by_four (PInt 8)) = Some (command_line ''8'' '''') \<and>
   raised (run two_by_four) = None \<and>
   shell_log (run two_by_four) ! 6 =
     ''az batchai job create -n pytorch-horovod-8 --cluster cluster -w ws -e distributed_pytorch_V100 -f job.json''"
proof -
  have tp: "TOTAL_PROCESSES two_by_four = Inr (PInt 8)"
    by (simp add: TOTAL_PROCESSES_def two_by_four_def)
  have fake: "FAKE two_by_four = ''''"
    by (simp add: FAKE_def two_by_four_def)
  note r = job_name_agrees_with_np [OF tp, unfolded py_str.simps str_int_8 fake]
  have name: "JOB_NAME two_by_four = Inr ''pytorch-horovod-8''"
    using r by simp
  have cl: "commandLine (jobs_dict two_by_four (PInt 8)) = Some (command_line ''8'' '''')"
    using r by simp
  have ran: "run two_by_four =
     \<lparr> raised = None,
       shell_log = setup_commands two_by_four @ job_commands two_by_four ''pytorch-horovod-8''
                     @ cleanup_commands two_by_four,
       job_file = Some (jobs_dict two_by_four (PInt 8)) \<rparr>"
    using r by simp
  have ok: "raised (run two_by_four) = None"
    by (simp add: ran)
  have "shell_log (run two_by_four) ! 6 = hd (job_commands two_by_four ''pytorch-horovod-8'')"
    by (simp add: ran setup_commands_def job_commands_def nth_append)
  then have submit: "shell_log (run two_by_four) ! 6 =
     ''az batchai job create -n pytorch-horovod-8 --cluster cluster -w ws -e distributed_pytorch_V100 -f job.json''"
    by (simp add: job_commands_def two_by_four_def)
  show ?thesis using tp name cl ok submit by (simp only: simp_thms)
qed

text \<open>
  C2. The claim: when a required key (NUM_NODES, PROCESSES_PER_NODE, GPU_TYPE, USE_FAKE,
  DOCKERHUB) is absent or empty, the builder fails with a ConfigurationError. The notebook
  has no such error and no check of its keys. On an empty store and an empty environment
  the parameters cell completes with NUM_NODES equal to None, and the run then stops with
  TypeError, not ConfigurationError. With the two counts rebound to 2 and 4 and every
  other key still absent (GPU_TYPE is None, DOCKER_REPOSITORY is unset) the run completes
  and writes a descriptor whose image is \<^verbatim>\<open>masalvar/caia-horovod-pytorch\<close>.
\<close>

theorem missing_keys_no_configuration_error:
  "NUM_NODES (parameters_cell Map.empty Map.empty) = PNone \<and>
   raised (notebook Map.empty Map.empty) = Some TypeError \<and>
   raised (notebook Map.empty Map.empty) \<noteq> Some ConfigurationError \<and>
   GPU_TYPE ((parameters_cell Map.empty Map.empty)
               \<lparr> NUM_NODES := PInt 2, PROCESSES_PER_NODE := PInt 4 \<rparr>) = PNone \<and>
   raised (run ((parameters_cell Map.empty Map.empty)
               \<lparr> NUM_NODES := PInt 2, PROCESSES_PER_NODE := PInt 4 \<rparr>)) = None \<and>
   map_option image_of (job_file (run ((parameters_cell Map.empty Map.empty)
               \<lparr> NUM_NODES := PInt 2, PROCESSES_PER_NODE := PInt 4 \<rparr>)))
     = Some (Some ''masalvar/caia-horovod-pytorch'')"
proof -
  have tp: "TOTAL_PROCESSES ((parameters_cell Map.empty Map.empty)
               \<lparr> NUM_NODES := PInt 2, PROCESSES_PER_NODE := PInt 4 \<rparr>) = Inr (PInt 8)"
    by (simp add: TOTAL_PROCESSES_def)
  have hub: "DOCKERHUB ((parameters_cell Map.empty Map.empty)
               \<lparr> NUM_NODES := PInt 2, PROCESSES_PER_NODE := PInt 4 \<rparr>) = PStr ''masalvar''"
    by (simp add: parameters_cell_def getenv_def)
  have gpu: "GPU_TYPE ((parameters_cell Map.empty Map.empty)
               \<lparr> NUM_NODES := PInt 2, PROCESSES_PER_NODE := PInt 4 \<rparr>) = PNone"
    by (simp add: parameters_cell_def get_key_def)
  have nn: "NUM_NODES (parameters_cell Map.empty Map.empty) = PNone"
    by (simp add: parameters_cell_def get_key_def)
  show ?thesis
    by (simp add: run_completes [OF tp] image_jobs_dict hub gpu nn notebook_stops)
qed

text \<open>
  C2, as amended. An absent key is read as None and raises nothing in the parameters
  cell. When NUM_NODES or PROCESSES_PER_NODE is absent, the run stops with TypeError at
  the product of line 53, before any shell line and with no descriptor written. An absent
  GPU_TYPE is rendered as \<^verbatim>\<open>None\<close> in the experiment name, an unset
  DOCKER_REPOSITORY falls back to \<^verbatim>\<open>masalvar\<close>, and USE_FAKE is the constant False
  of the source, not a key.
\<close>

theorem absent_keys_read_as_none:
  "(dotenv ''NUM_NODES'' = None \<or> dotenv ''PROCESSES_PER_NODE'' = None \<longrightarrow>
      (NUM_NODES (parameters_cell dotenv environ) = PNone \<or>
       PROCESSES_PER_NODE (parameters_cell dotenv environ) = PNone) \<and>
      notebook dotenv environ = \<lparr> raised = Some TypeError, shell_log = [], job_file = None \<rparr>) \<and>
   (dotenv ''GPU_TYPE'' = None \<longrightarrow>
      GPU_TYPE (parameters_cell dotenv environ) = PNone \<and>
      EXPERIMENT (parameters_cell dotenv environ) = PStr ''distributed_pytorch_None'') \<and>
   (environ ''DOCKER_REPOSITORY'' = None \<longrightarrow>
      DOCKERHUB (parameters_cell dotenv environ) = PStr ''masalvar'') \<and>
   USE_FAKE (parameters_cell dotenv environ) = PBool False"
proof -
  have counts: "NUM_NODES (parameters_cell dotenv environ) = PNone \<or>
       PROCESSES_PER_NODE (parameters_cell dotenv environ) = PNone"
    if "dotenv ''NUM_NODES'' = None \<or> dotenv ''PROCESSES_PER_NODE'' = None"
    using that by (auto simp: parameters_cell_def get_key_def)
  have stop: "notebook dotenv environ = \<lparr> raised = Some TypeError, shell_log = [], job_file = None \<rparr>"
    if "dotenv ''NUM_NODES'' = None \<or> dotenv ''PROCESSES_PER_NODE'' = None"
    unfolding notebook_def by (rule run_without_count [OF counts [OF that]])
  have gpu: "GPU_TYPE (parameters_cell dotenv environ) = PNone \<and>
      EXPERIMENT (parameters_cell dotenv environ) = PStr ''distributed_pytorch_None''"
    if "dotenv ''GPU_TYPE'' = None"
    using that by (simp add: parameters_cell_def get_key_def)
  have hub: "DOCKERHUB (parameters_cell dotenv environ) = PStr ''masalvar''"
    if "environ ''DOCKER_REPOSITORY'' = None"
    using that by (simp add: parameters_cell_def getenv_def)
  have fake: "USE_FAKE (parameters_cell dotenv environ) = PBool False"
    by (simp add: parameters_cell_def)
  show ?thesis using counts stop gpu hub fake by blast
qed

text \<open>
  The amended C2 on an empty store and an empty environment.
\<close>

theorem absent_keys_read_as_none_witness:
  "(Map.empty :: string \<rightharpoonup> string) ''NUM_NODES'' = None \<and>
   notebook Map.empty Map.empty = \<lparr> raised = Some TypeError, shell_log = [], job_file = None \<rparr> \<and>
   GPU_TYPE (parameters_cell Map.empty Map.empty) = PNone \<and>
   EXPERIMENT (parameters_cell Map.empty Map.empty) = PStr ''distributed_pytorch_None'' \<and>
   DOCKERHUB (parameters_cell Map.empty Map.empty) = PStr ''masalvar''"
  using absent_keys_read_as_none [of Map.empty Map.empty] by simp

text \<open>
  C3. The claim: uploads come before the submission, the submission before every status
  poll and log stream, and each delete happens only after explicit operator confirmation.
  The order holds, the confirmation does not: every delete line of the source carries
  \<^verbatim>\<open>-y\<close>, which tells \<^verbatim>\<open>az\<close> not to prompt for confirmation, and the
  notebook reads no answer from the operator. In the run with 2 nodes and 4 processes per
  node, the twelfth shell line is the job delete, issued with \<^verbatim>\<open>-y\<close>.
\<close>

theorem job_delete_not_confirmed:
  "raised (run two_by_four) = None \<and>
   shell_log (run two_by_four) ! 11 =
     ''az batchai job delete -w ws -e distributed_pytorch_V100 --name pytorch-horovod-8 -y'' \<and>
   is_delete (shell_log (run two_by_four) ! 11) \<and>
   no_prompt (shell_log (run two_by_four) ! 11)"
proof -
  have tp: "TOTAL_PROCESSES two_by_four = Inr (PInt 8)"
    by (simp add: TOTAL_PROCESSES_def two_by_four_def)
  have ok: "raised (run two_by_four) = None"
    by (simp add: run_completes [OF tp])
  have "shell_log (run two_by_four) ! 11 = last (job_commands two_by_four ''pytorch-horovod-8'')"
    by (simp add: run_completes [OF tp] str_int_8 setup_commands_def job_commands_def nth_append)
  then have cmd: "shell_log (run two_by_four) ! 11 =
     ''az batchai job delete -w ws -e distributed_pytorch_V100 --name pytorch-horovod-8 -y''"
    by (simp add: job_commands_def two_by_four_def)
  have del: "is_delete (shell_log (run two_by_four) ! 11)"
    unfolding cmd by (simp add: is_delete_def)
  have "no_prompt (''az batchai job delete -w ws -e distributed_pytorch_V100 --name pytorch-horovod-8'' @ '' -y'')"
    by (rule no_prompt_end)
  then have np: "no_prompt (shell_log (run two_by_four) ! 11)"
    unfolding cmd by simp
  show ?thesis using ok cmd del np by (simp only: simp_thms)
qed

text \<open>
  C3, as amended. In every run that raises no exception, the four artifact uploads are
  issued before the job submission, the job submission before each of the four status
  polls and log streams, and these before each of the five delete commands (job, cluster,
  experiment, workspace, group); every delete command is issued with \<^verbatim>\<open>-y\<close>, that
  is, without a confirmation prompt.
\<close>

theorem shell_order_and_unprompted_deletes:
  assumes "raised (run p) = None"
  shows "all_before is_upload is_submit (shell_log (run p)) \<and>
         all_before is_submit is_monitor (shell_log (run p)) \<and>
         all_before is_monitor is_delete (shell_log (run p)) \<and>
         length (filter is_upload (shell_log (run p))) = 4 \<and>
         length (filter is_submit (shell_log (run p))) = 1 \<and>
         length (filter is_monitor (shell_log (run p))) = 4 \<and>
         length (filter is_delete (shell_log (run p))) = 5 \<and>
         list_all no_prompt (filter is_delete (shell_log (run p)))"
proof -
  obtain v where v: "TOTAL_PROCESSES p = Inr v"
    using run_ok_value [OF assms] by blast
  define j where "j = ''pytorch-horovod-'' @ py_str v"
  have log: "shell_log (run p) = setup_commands p @ job_commands p j @ cleanup_commands p"
    by (simp add: run_completes [OF v] j_def)
  have mon: "length (filter is_monitor (shell_log (run p))) = 4"
    unfolding log filter_monitor by (simp add: job_commands_def)
  have sub: "length (filter is_submit (shell_log (run p))) = 1"
    unfolding log filter_submit by simp
  have up: "length (filter is_upload (shell_log (run p))) = 4"
    unfolding log filter_upload by simp
  have del: "length (filter is_delete (shell_log (run p))) = 5"
    unfolding log filter_delete by simp
  have np: "list_all no_prompt (filter is_delete (shell_log (run p)))"
    unfolding log filter_delete by (rule deletes_no_prompt)
  show ?thesis
    using uploads_before_submit [of p j] submit_before_monitor [of p j]
      monitor_before_delete [of p j] up sub mon del np
    unfolding log by (simp only: simp_thms)
qed

text \<open>
  The amended C3 on the run with 2 nodes and 4 processes per node.
\<close>

theorem shell_order_and_unprompted_deletes_witness:
  "raised (run two_by_four) = None \<and>
   all_before is_upload is_submit (shell_log (run two_by_four)) \<and>
   all_before is_submit is_monitor (shell_log (run two_by_four)) \<and>
   all_before is_monitor is_delete (shell_log (run two_by_four)) \<and>
   length (filter is_delete (shell_log (run two_by_four))) = 5 \<and>
   list_all no_prompt (filter is_delete (shell_log (run two_by_four)))"
proof -
  have tp: "TOTAL_PROCESSES two_by_four = Inr (PInt 8)"
    by (simp add: TOTAL_PROCESSES_def two_by_four_def)
  have ok: "raised (run two_by_four) = None"
    by (simp add: run_completes [OF tp])
  show ?thesis
    using shell_order_and_unprompted_deletes [OF ok] ok by (simp only: simp_thms)
qed

text \<open>
  C7. Serializing a descriptor to the job file and parsing the file again gives back the
  descriptor itself: every member, item and scalar value, in the same order. It holds
  for every tree of dictionaries, lists and scalar values, and so for the descriptor built
  from any values of the parameters and of TOTAL_PROCESSES. The writer and the reader are
  the models given above for the missing \<^verbatim>\<open>write_json_to_file\<close> and for a JSON
  parser.
\<close>

theorem job_file_round_trip:
  "loads (write_json_to_file (jobs_dict p total_processes)) = Some (jobs_dict p total_processes)"
  unfolding write_json_to_file_def by (rule loads_dumps)

text \<open>
  C6. The claim: in every descriptor the builder emits, each id that the command line
  refers to through \<^verbatim>\<open>AZ_BATCHAI_INPUT_<ID>\<close> is the id of a record of
  \<^verbatim>\<open>inputDirectories\<close>. The f-string copies \<^verbatim>\<open>str(TOTAL_PROCESSES)\<close> into
  the command line and nothing checks the ids. With NUM_NODES bound to 1 and
  PROCESSES_PER_NODE to the text \<^verbatim>\<open>$AZ_BATCHAI_INPUT_FOO\<close>, line 53 gives that text
  (a string times 1), the run completes, and the descriptor written refers to FOO, which
  is not among SCRIPTS, TRAIN and TEST.
\<close>

theorem undeclared_input_from_text_count:
  "TOTAL_PROCESSES (two_by_four\<lparr>NUM_NODES := PInt 1,
       PROCESSES_PER_NODE := PStr ''$AZ_BATCHAI_INPUT_FOO''\<rparr>)
     = Inr (PStr ''$AZ_BATCHAI_INPUT_FOO'') \<and>
   raised (run (two_by_four\<lparr>NUM_NODES := PInt 1,
       PROCESSES_PER_NODE := PStr ''$AZ_BATCHAI_INPUT_FOO''\<rparr>)) = None \<and>
   map_option commandLine (job_file (run (two_by_four\<lparr>NUM_NODES := PInt 1,
       PROCESSES_PER_NODE := PStr ''$AZ_BATCHAI_INPUT_FOO''\<rparr>)))
     = Some (Some (command_line ''$AZ_BATCHAI_INPUT_FOO'' '''')) \<and>
   map_option input_ids (job_file (run (two_by_four\<lparr>NUM_NODES := PInt 1,
       PROCESSES_PER_NODE := PStr ''$AZ_BATCHAI_INPUT_FOO''\<rparr>)))
     = Some [''SCRIPTS'', ''TRAIN'', ''TEST''] \<and>
   referenced_inputs (command_line ''$AZ_BATCHAI_INPUT_FOO'' '''')
     = [''FOO'', ''TRAIN'', ''TEST'', ''SCRIPTS''] \<and>
   \<not> set (referenced_inputs (command_line ''$AZ_BATCHAI_INPUT_FOO'' ''''))
       \<subseteq> set [''SCRIPTS'', ''TRAIN'', ''TEST'']"
proof -
  let ?p = "two_by_four\<lparr>NUM_NODES := PInt 1, PROCESSES_PER_NODE := PStr ''$AZ_BATCHAI_INPUT_FOO''\<rparr>"
  have tp: "TOTAL_PROCESSES ?p = Inr (PStr ''$AZ_BATCHAI_INPUT_FOO'')"
    by (simp add: TOTAL_PROCESSES_def repeat_once)
  have fake: "FAKE ?p = ''''"
    by (simp add: FAKE_def two_by_four_def)
  have ok: "raised (run ?p) = None"
    by (simp add: run_completes [OF tp])
  have cl: "map_option commandLine (job_file (run ?p))
     = Some (Some (command_line ''$AZ_BATCHAI_INPUT_FOO'' ''''))"
    by (simp add: run_completes [OF tp] commandLine_jobs_dict fake)
  have ids: "map_option input_ids (job_file (run ?p)) = Some [''SCRIPTS'', ''TRAIN'', ''TEST'']"
    by (simp add: run_completes [OF tp] input_ids_jobs_dict)
  have refs: "referenced_inputs (command_line ''$AZ_BATCHAI_INPUT_FOO'' '''')
     = [''FOO'', ''TRAIN'', ''TEST'', ''SCRIPTS'']"
    by (simp add: command_line_def is_ident_def)
  have out: "\<not> set (referenced_inputs (command_line ''$AZ_BATCHAI_INPUT_FOO'' ''''))
       \<subseteq> set [''SCRIPTS'', ''TRAIN'', ''TEST'']"
    unfolding refs by simp
  show ?thesis using tp ok cl ids refs out by (simp only: simp_thms)
qed

text \<open>
  C6, as amended. Whenever TOTAL_PROCESSES is an integer, the run completes and in the
  descriptor it writes, whatever USE_FAKE is, the ids that the command line refers to
  through \<^verbatim>\<open>AZ_BATCHAI_INPUT_<ID>\<close> are TRAIN, TEST and SCRIPTS, the ids of the
  records of \<^verbatim>\<open>inputDirectories\<close> are SCRIPTS, TRAIN and TEST, and so every id
  referred to is the id of a record of the sequence.
\<close>

theorem referenced_inputs_declared_for_integer_count:
  assumes "TOTAL_PROCESSES p = Inr (PInt n)"
  shows "raised (run p) = None \<and>
   job_file (run p) = Some (jobs_dict p (PInt n)) \<and>
   commandLine (jobs_dict p (PInt n)) = Some (command_line (str_int n) (FAKE p)) \<and>
   referenced_inputs (command_line (str_int n) (FAKE p)) = [''TRAIN'', ''TEST'', ''SCRIPTS''] \<and>
   input_ids (jobs_dict p (PInt n)) = [''SCRIPTS'', ''TRAIN'', ''TEST''] \<and>
   set (referenced_inputs (command_line (str_int n) (FAKE p)))
     \<subseteq> set (input_ids (jobs_dict p (PInt n)))"
proof -
  have a: "CHR ''A'' \<notin> set (str_int n)"
    by (rule decimal_not_A [OF str_int_decimal])
  have refs: "referenced_inputs (command_line (str_int n) (FAKE p)) = [''TRAIN'', ''TEST'', ''SCRIPTS'']"
    by (cases "truthy (USE_FAKE p)")
       (simp_all add: FAKE_def referenced_inputs_plain [OF a] referenced_inputs_faked [OF a])
  show ?thesis
    by (simp add: run_completes [OF assms] commandLine_jobs_dict refs input_ids_jobs_dict)
qed

text \<open>
  The amended C6 on the run with 2 nodes and 4 processes per node.
\<close>

theorem referenced_inputs_declared_for_integer_count_witness:
  "TOTAL_PROCESSES two_by_four = Inr (PInt 8) \<and>
   raised (run two_by_four) = None \<and>
   job_file (run two_by_four) = Some (jobs_dict two_by_four (PInt 8)) \<and>
   referenced_inputs (command_line (str_int 8) (FAKE two_by_four)) = [''TRAIN'', ''TEST'', ''SCRIPTS''] \<and>
   input_ids (jobs_dict two_by_four (PInt 8)) = [''SCRIPTS'', ''TRAIN'', ''TEST'']"
proof -
  have tp: "TOTAL_PROCESSES two_by_four = Inr (PInt 8)"
    by (simp add: TOTAL_PROCESSES_def two_by_four_def)
  show ?thesis using referenced_inputs_declared_for_integer_count [OF tp] tp by (simp only: simp_thms)
qed

text \<open>
  C8. The claim: for every configuration the script accepts, the command line never
  contains the token \<^verbatim>\<open>-env FAKE=True\<close>, because USE_FAKE is the constant False.
  USE_FAKE is indeed False and FAKE empty, but the command line also carries
  \<^verbatim>\<open>str(TOTAL_PROCESSES)\<close>. On an empty store, with NUM_NODES bound to 1 and
  PROCESSES_PER_NODE to the text \<^verbatim>\<open>8 -env FAKE=True\<close>, line 53 gives that text, the
  run completes, and the command line written has the tokens \<^verbatim>\<open>-env\<close> and
  \<^verbatim>\<open>FAKE=True\<close> right after \<^verbatim>\<open>mpirun -np 8\<close>.
\<close>

theorem fake_token_from_text_count:
  "USE_FAKE ((parameters_cell Map.empty Map.empty)
       \<lparr>NUM_NODES := PInt 1, PROCESSES_PER_NODE := PStr ''8 -env FAKE=True''\<rparr>) = PBool False \<and>
   raised (run ((parameters_cell Map.empty Map.empty)
       \<lparr>NUM_NODES := PInt 1, PROCESSES_PER_NODE := PStr ''8 -env FAKE=True''\<rparr>)) = None \<and>
   map_option commandLine (job_file (run ((parameters_cell Map.empty Map.empty)
       \<lparr>NUM_NODES := PInt 1, PROCESSES_PER_NODE := PStr ''8 -env FAKE=True''\<rparr>)))
     = Some (Some (command_line ''8 -env FAKE=True'' '''')) \<and>
   take 5 (drop 4 (tokens (command_line ''8 -env FAKE=True'' '''')))
     = [''mpirun'', ''-np'', ''8'', ''-env'', ''FAKE=True''] \<and>
   ''-env'' \<in> set (tokens (command_line ''8 -env FAKE=True'' '''')) \<and>
   ''FAKE=True'' \<in> set (tokens (command_line ''8 -env FAKE=True'' ''''))"
proof -
  let ?p = "(parameters_cell Map.empty Map.empty)
       \<lparr>NUM_NODES := PInt 1, PROCESSES_PER_NODE := PStr ''8 -env FAKE=True''\<rparr>"
  have tp: "TOTAL_PROCESSES ?p = Inr (PStr ''8 -env FAKE=True'')"
    by (simp add: TOTAL_PROCESSES_def repeat_once)
  have uf: "USE_FAKE ?p = PBool False"
    by (simp add: parameters_cell_def)
  have fake: "FAKE ?p = ''''"
    by (simp add: FAKE_def uf)
  have ok: "raised (run ?p) = None"
    by (simp add: run_completes [OF tp])
  have cl: "map_option commandLine (job_file (run ?p))
     = Some (Some (command_line ''8 -env FAKE=True'' ''''))"
    by (simp add: run_completes [OF tp] commandLine_jobs_dict fake)
  have toks: "tokens (command_line ''8 -env FAKE=True'' '''') =
     [''echo'', ''$AZ_BATCH_HOST_LIST;'', ''cat'', ''$AZ_BATCHAI_MPI_HOST_FILE;'', ''mpirun'', ''-np'',
      ''8'', ''-env'', ''FAKE=True''] @
     [''--hostfile'', ''$AZ_BATCHAI_MPI_HOST_FILE'', ''-bind-to'', ''none'', ''-map-by'', ''slot'', ''-x'', ''NCCL_DEBUG=INFO'', ''-x'', ''LD_LIBRARY_PATH'', ''-mca'', ''btl_tcp_if_include'', ''eth0'', ''-x'', ''NCCL_SOCKET_IFNAME=eth0'', ''-mca'', ''btl'', ''^openib'', ''-x'', ''NCCL_IB_DISABLE=1'', ''-x'', ''DISTRIBUTED=True'', ''-x'', ''AZ_BATCHAI_INPUT_TRAIN'', ''-x'', ''AZ_BATCHAI_INPUT_TEST'', ''--allow-run-as-root''] @
     [''python'', ''-u'', ''$AZ_BATCHAI_INPUT_SCRIPTS/imagenet_pytorch_horovod.py'']"
    by (simp add: tokens_def command_line_def is_space_def)
  have t5: "take 5 (drop 4 (tokens (command_line ''8 -env FAKE=True'' '''')))
     = [''mpirun'', ''-np'', ''8'', ''-env'', ''FAKE=True'']"
    unfolding toks by simp
  have m1: "''-env'' \<in> set (tokens (command_line ''8 -env FAKE=True'' ''''))"
    unfolding toks by simp
  have m2: "''FAKE=True'' \<in> set (tokens (command_line ''8 -env FAKE=True'' ''''))"
    unfolding toks by simp
  show ?thesis using uf ok cl t5 m1 m2 by (simp only: simp_thms)
qed

text \<open>
  C8, as amended. For every store and environment, and whatever NUM_NODES and
  PROCESSES_PER_NODE are bound to, if TOTAL_PROCESSES is an integer then the run completes
  with USE_FAKE equal to the constant False of line 48 and FAKE empty, and the command
  line of the descriptor it writes has neither the token \<^verbatim>\<open>-env\<close> nor the token
  \<^verbatim>\<open>FAKE=True\<close>.
\<close>

theorem fake_flag_absent_for_integer_count:
  assumes "TOTAL_PROCESSES ((parameters_cell dotenv environ)
             \<lparr>NUM_NODES := a, PROCESSES_PER_NODE := b\<rparr>) = Inr (PInt n)"
  shows "USE_FAKE ((parameters_cell dotenv environ)\<lparr>NUM_NODES := a, PROCESSES_PER_NODE := b\<rparr>)
       = PBool False \<and>
    FAKE ((parameters_cell dotenv environ)\<lparr>NUM_NODES := a, PROCESSES_PER_NODE := b\<rparr>) = '''' \<and>
    raised (run ((parameters_cell dotenv environ)\<lparr>NUM_NODES := a, PROCESSES_PER_NODE := b\<rparr>))
       = None \<and>
    map_option commandLine
       (job_file (run ((parameters_cell dotenv environ)\<lparr>NUM_NODES := a, PROCESSES_PER_NODE := b\<rparr>)))
       = Some (Some (command_line (str_int n) '''')) \<and>
    ''-env'' \<notin> set (tokens (command_line (str_int n) '''')) \<and>
    ''FAKE=True'' \<notin> set (tokens (command_line (str_int n) ''''))"
proof -
  let ?p = "(parameters_cell dotenv environ)\<lparr>NUM_NODES := a, PROCESSES_PER_NODE := b\<rparr>"
  have uf: "USE_FAKE ?p = PBool False"
    by (simp add: parameters_cell_def)
  have fake: "FAKE ?p = ''''"
    by (simp add: FAKE_def uf)
  have ok: "raised (run ?p) = None"
    by (simp add: run_completes [OF assms])
  have cl: "map_option commandLine (job_file (run ?p)) = Some (Some (command_line (str_int n) ''''))"
    by (simp add: run_completes [OF assms] commandLine_jobs_dict fake)
  have "str_int n \<noteq> ''-env''" "str_int n \<noteq> ''FAKE=True''"
    using decimal_token [OF str_int_decimal [of n]] by simp_all
  then have no: "''-env'' \<notin> set (tokens (command_line (str_int n) ''''))"
      "''FAKE=True'' \<notin> set (tokens (command_line (str_int n) ''''))"
    unfolding tokens_plain by auto
  show ?thesis using uf fake ok cl no by (simp only: simp_thms)
qed

text \<open>
  The amended C8 on an empty store with the counts bound to 2 and 4.
\<close>

theorem fake_flag_absent_for_integer_count_witness:
  "TOTAL_PROCESSES ((parameters_cell Map.empty Map.empty)
       \<lparr>NUM_NODES := PInt 2, PROCESSES_PER_NODE := PInt 4\<rparr>) = Inr (PInt 8) \<and>
   raised (run ((parameters_cell Map.empty Map.empty)
       \<lparr>NUM_NODES := PInt 2, PROCESSES_PER_NODE := PInt 4\<rparr>)) = None \<and>
   ''-env'' \<notin> set (tokens (command_line (str_int 8) '''')) \<and>
   ''FAKE=True'' \<notin> set (tokens (command_line (str_int 8) ''''))"
proof -
  have tp: "TOTAL_PROCESSES ((parameters_cell Map.empty Map.empty)
       \<lparr>NUM_NODES := PInt 2, PROCESSES_PER_NODE := PInt 4\<rparr>) = Inr (PInt 8)"
    by (simp add: TOTAL_PROCESSES_def)
  show ?thesis using fake_flag_absent_for_integer_count [OF tp] tp by (simp only: simp_thms)
qed

end
